theory Spec2Isabelle
  imports Main
begin

section \<open>Values, errors and DataFrames\<close>

text \<open>
  The pipeline of \<^verbatim>\<open>etl_utils.py\<close> threads a pandas DataFrame through small
  functions. A cell of a DataFrame is a missing value (\<^verbatim>\<open>NaN\<close>, \<^verbatim>\<open>None\<close>,
  \<^verbatim>\<open>pd.NA\<close>, \<^verbatim>\<open>NaT\<close>), a whole number, a string, a timestamp or a calendar
  date. A timestamp is an instant in nanoseconds since the UNIX epoch together with its
  time zone: none (naive) or a fixed offset from UTC in seconds. A date is a number of
  days since 1970-01-01. Numbers are the whole numbers the API sends (goal counts, ids,
  epoch seconds); how pandas stores them (int64, float64, Int64) is not part of a cell.
\<close>

datatype tzinfo = Naive | Offset int

datatype cell = NA | Num int | Str string | Ts int tzinfo | Date int

text \<open>Every exception the modelled code can raise is a value.\<close>

datatype error =
    KeyError
  | TypeError
  | ValueError
  | AttributeError
  | OutOfBoundsDatetime
  | RequestException
  | HTTPError
  | JSONDecodeError
  | TableNotFoundError
  | DeltaError
  | Exception error

definition thenE :: "error + 'a \<Rightarrow> ('a \<Rightarrow> error + 'b) \<Rightarrow> error + 'b" where
  "thenE r f = (case r of Inl e \<Rightarrow> Inl e | Inr x \<Rightarrow> f x)"

text \<open>A function applied to every element in order; the first exception ends the pass.\<close>

fun map_err :: "('a \<Rightarrow> error + 'b) \<Rightarrow> 'a list \<Rightarrow> error + 'b list" where
  "map_err f [] = Inr []"
| "map_err f (x # xs) =
     (case f x of
        Inl e \<Rightarrow> Inl e
      | Inr y \<Rightarrow> (case map_err f xs of Inl e \<Rightarrow> Inl e | Inr ys \<Rightarrow> Inr (y # ys)))"

text \<open>
  A DataFrame is its columns in order, each a label with the cells of its rows. The
  development is about frames as pandas builds them from JSON records and from a Delta
  table: every label occurs once and all columns have the same number of rows
  (\<open>wf_df\<close>).
\<close>

type_synonym column = "cell list"
type_synonym dataframe = "(string \<times> column) list"

definition columns :: "dataframe \<Rightarrow> string list" where
  "columns df = map fst df"

definition nrows :: "dataframe \<Rightarrow> nat" where
  "nrows df = (case df of [] \<Rightarrow> 0 | (c, xs) # rest \<Rightarrow> length xs)"

definition wf_df :: "dataframe \<Rightarrow> bool" where
  "wf_df df = (distinct (columns df) \<and> list_all (\<lambda>(c, xs). length xs = nrows df) df)"

text \<open>\<^verbatim>\<open>df[c]\<close>: the column labelled \<open>c\<close>, or \<^verbatim>\<open>KeyError\<close>.\<close>

definition getitem :: "dataframe \<Rightarrow> string \<Rightarrow> error + column" where
  "getitem df c = (case map_of df c of None \<Rightarrow> Inl KeyError | Some xs \<Rightarrow> Inr xs)"

text \<open>\<^verbatim>\<open>df[c] = xs\<close>: replaces the column in place, or appends a new last column.\<close>

definition setitem :: "string \<Rightarrow> column \<Rightarrow> dataframe \<Rightarrow> dataframe" where
  "setitem c xs df =
     (if c \<in> set (columns df) then map (\<lambda>(k, ys). if k = c then (k, xs) else (k, ys)) df
      else df @ [(c, xs)])"

text \<open>\<^verbatim>\<open>df.rename(columns=f)\<close> and \<^verbatim>\<open>df.drop(columns=cs)\<close>.\<close>

definition rename_columns :: "(string \<Rightarrow> string) \<Rightarrow> dataframe \<Rightarrow> dataframe" where
  "rename_columns f df = map (\<lambda>(k, xs). (f k, xs)) df"

definition drop_columns :: "string list \<Rightarrow> dataframe \<Rightarrow> dataframe" where
  "drop_columns cs df = filter (\<lambda>(k, xs). k \<notin> set cs) df"

text \<open>The cell of row \<open>i\<close> in column \<open>c\<close>, when there is one.\<close>

definition cell_at :: "dataframe \<Rightarrow> string \<Rightarrow> nat \<Rightarrow> cell option" where
  "cell_at df c i =
     (case map_of df c of
        None \<Rightarrow> None
      | Some xs \<Rightarrow> if i < length xs then Some (xs ! i) else None)"

section \<open>Derived columns: match winner and total goals\<close>

text \<open>\<^verbatim>\<open>pd.notna\<close> on a cell.\<close>

definition notna :: "cell \<Rightarrow> bool" where
  "notna v = (v \<noteq> NA)"

text \<open>Python's order on strings: code point by code point, a proper prefix first.\<close>

fun str_lt :: "string \<Rightarrow> string \<Rightarrow> bool" where
  "str_lt [] [] = False"
| "str_lt [] (y # ys) = True"
| "str_lt (x # xs) [] = False"
| "str_lt (x # xs) (y # ys) =
     (if (of_char x :: nat) < of_char y then True
      else if (of_char y :: nat) < of_char x then False
      else str_lt xs ys)"

text \<open>
  \<^verbatim>\<open>a < b\<close> on two present values: numbers, strings, dates and timestamps compare
  with their own kind (a naive timestamp not with an aware one); any other pair raises
  \<^verbatim>\<open>TypeError\<close>. \<^verbatim>\<open>a > b\<close> is \<^verbatim>\<open>b < a\<close>.
\<close>

fun py_lt :: "cell \<Rightarrow> cell \<Rightarrow> error + bool" where
  "py_lt (Num a) (Num b) = Inr (a < b)"
| "py_lt (Str a) (Str b) = Inr (str_lt a b)"
| "py_lt (Date a) (Date b) = Inr (a < b)"
| "py_lt (Ts a Naive) (Ts b Naive) = Inr (a < b)"
| "py_lt (Ts a (Offset oa)) (Ts b (Offset ob)) = Inr (a < b)"
| "py_lt _ _ = Inl TypeError"

definition py_gt :: "cell \<Rightarrow> cell \<Rightarrow> error + bool" where
  "py_gt a b = py_lt b a"

text \<open>
  The inner function \<^verbatim>\<open>_winner\<close> of \<^verbatim>\<open>add_match_winner\<close>, on the two goal
  cells of one row.
\<close>

definition winner :: "cell \<Rightarrow> cell \<Rightarrow> error + cell" where
  "winner gh ga =
     (if notna gh \<and> notna ga then
        thenE (py_gt gh ga) (\<lambda>home.
          if home then Inr (Str ''Home'')
          else thenE (py_lt gh ga) (\<lambda>away.
            if away then Inr (Str ''Away'') else Inr (Str ''Draw'')))
      else Inr NA)"

text \<open>
  \<^verbatim>\<open>df.apply(_winner, axis=1)\<close>: \<^verbatim>\<open>_winner\<close> reads the two goal columns of each
  row, so the pass runs over the rows of these two columns.
\<close>

definition apply_winner :: "column \<Rightarrow> column \<Rightarrow> error + column" where
  "apply_winner ghs gas = map_err (\<lambda>(gh, ga). winner gh ga) (zip ghs gas)"

definition add_match_winner :: "dataframe \<Rightarrow> error + dataframe" where
  "add_match_winner df =
     thenE
       (if ''goals_home'' \<in> set (columns df) \<and> ''goals_away'' \<in> set (columns df) then
          thenE (getitem df ''goals_home'') (\<lambda>ghs.
          thenE (getitem df ''goals_away'') (\<lambda>gas.
          thenE (apply_winner ghs gas) (\<lambda>ws.
          Inr (setitem ''match_winner'' ws df))))
        else Inr df)
       (\<lambda>df1.
          let drop_cols = filter (\<lambda>c. c \<in> set (columns df1))
                            [''teams_home_winner'', ''teams_away_winner'']
          in Inr (if drop_cols \<noteq> [] then drop_columns drop_cols df1 else df1))"

text \<open>
  \<^verbatim>\<open>a + b\<close> on the cells of two columns: a missing operand gives a missing result,
  numbers add, strings concatenate, and no other pair has a sum.
\<close>

fun py_add :: "cell \<Rightarrow> cell \<Rightarrow> error + cell" where
  "py_add NA _ = Inr NA"
| "py_add _ NA = Inr NA"
| "py_add (Num a) (Num b) = Inr (Num (a + b))"
| "py_add (Str a) (Str b) = Inr (Str (a @ b))"
| "py_add _ _ = Inl TypeError"

definition add_columns :: "column \<Rightarrow> column \<Rightarrow> error + column" where
  "add_columns xs ys = map_err (\<lambda>(x, y). py_add x y) (zip xs ys)"

definition add_total_goals :: "dataframe \<Rightarrow> error + dataframe" where
  "add_total_goals df =
     (if ''goals_home'' \<in> set (columns df) \<and> ''goals_away'' \<in> set (columns df) then
        thenE (getitem df ''goals_home'') (\<lambda>ghs.
        thenE (getitem df ''goals_away'') (\<lambda>gas.
        thenE (add_columns ghs gas) (\<lambda>tot.
        Inr (setitem ''total_goals'' tot df))))
      else Inr df)"

text \<open>A goal count is a number or missing.\<close>

definition goal_count :: "cell \<Rightarrow> bool" where
  "goal_count v = (case v of NA \<Rightarrow> True | Num n \<Rightarrow> True | _ \<Rightarrow> False)"

section \<open>Column names\<close>

text \<open>
  \<^verbatim>\<open>df.rename(columns={...})\<close> with a dictionary: a label that is a key gets the
  key's value, every other label stays.
\<close>

definition rename_dict :: "(string \<times> string) list \<Rightarrow> string \<Rightarrow> string" where
  "rename_dict d c = (case map_of d c of None \<Rightarrow> c | Some c' \<Rightarrow> c')"

definition rename_fixture_id :: "dataframe \<Rightarrow> dataframe" where
  "rename_fixture_id df =
     (if ''fixture.id'' \<in> set (columns df)
      then rename_columns (rename_dict [(''fixture.id'', ''fixture_id'')]) df
      else df)"

text \<open>
  \<^verbatim>\<open>c.lower().replace(".", "_")\<close> on the ASCII labels the API sends: the letters
  \<^verbatim>\<open>A\<close> to \<^verbatim>\<open>Z\<close> are lowered, every other character stays.
\<close>

definition char_lower :: "char \<Rightarrow> char" where
  "char_lower c =
     (if (65 :: nat) \<le> of_char c \<and> of_char c \<le> (90 :: nat)
      then char_of (of_char c + (32 :: nat)) else c)"

definition lower :: "string \<Rightarrow> string" where
  "lower s = map char_lower s"

definition replace_char :: "char \<Rightarrow> char \<Rightarrow> string \<Rightarrow> string" where
  "replace_char old new s = map (\<lambda>c. if c = old then new else c) s"

definition standardize_column_names :: "dataframe \<Rightarrow> dataframe" where
  "standardize_column_names df =
     rename_columns (\<lambda>c. replace_char (CHR ''.'') (CHR ''_'') (lower c)) df"

text \<open>
  \<^verbatim>\<open>transform_data\<close> of \<^verbatim>\<open>etl_fixtures.py\<close>: the records are flattened by
  \<^verbatim>\<open>pd.json_normalize\<close>, which is the library's and a parameter here, and the
  fixture id is renamed at once.
\<close>

definition transform_data :: "('j \<Rightarrow> dataframe) \<Rightarrow> 'j \<Rightarrow> dataframe" where
  "transform_data json_normalize data = rename_fixture_id (json_normalize data)"

section \<open>Dates and timestamps\<close>

text \<open>
  Days since 1970-01-01 of a date of the proleptic Gregorian calendar, and back; the
  year of January and February counts as the year before, so that the leap day is the
  last day of a year.
\<close>

definition days_from_civil :: "int \<Rightarrow> int \<Rightarrow> int \<Rightarrow> int" where
  "days_from_civil y m d =
     (let y' = (if m \<le> 2 then y - 1 else y);
          era = y' div 400;
          yoe = y' - era * 400;
          doy = (153 * (if m > 2 then m - 3 else m + 9) + 2) div 5 + d - 1;
          doe = yoe * 365 + yoe div 4 - yoe div 100 + doy
      in era * 146097 + doe - 719468)"

definition civil_from_days :: "int \<Rightarrow> int \<times> int \<times> int" where
  "civil_from_days z =
     (let z' = z + 719468;
          era = z' div 146097;
          doe = z' - era * 146097;
          yoe = (doe - doe div 1460 + doe div 36524 - doe div 146096) div 365;
          doy = doe - (365 * yoe + yoe div 4 - yoe div 100);
          mp = (5 * doy + 2) div 153;
          d = doy - (153 * mp + 2) div 5 + 1;
          m = (if mp < 10 then mp + 3 else mp - 9)
      in (if m \<le> 2 then yoe + era * 400 + 1 else yoe + era * 400, m, d))"

definition is_leap :: "int \<Rightarrow> bool" where
  "is_leap y = (y mod 4 = 0 \<and> (y mod 100 \<noteq> 0 \<or> y mod 400 = 0))"

definition days_in_month :: "int \<Rightarrow> int \<Rightarrow> int" where
  "days_in_month y m =
     (if m = 2 then (if is_leap y then 29 else 28)
      else if m = 4 \<or> m = 6 \<or> m = 9 \<or> m = 11 then 30 else 31)"

text \<open>Decimal digits: reading a run of digits, and writing a number on a fixed width.\<close>

definition digit_of :: "char \<Rightarrow> int option" where
  "digit_of c =
     (if (48 :: nat) \<le> of_char c \<and> of_char c \<le> (57 :: nat)
      then Some (int (of_char c) - 48) else None)"

fun digits_acc :: "int \<Rightarrow> string \<Rightarrow> int option" where
  "digits_acc acc [] = Some acc"
| "digits_acc acc (c # cs) =
     (case digit_of c of None \<Rightarrow> None | Some d \<Rightarrow> digits_acc (acc * 10 + d) cs)"

definition digits :: "string \<Rightarrow> int option" where
  "digits s = (if s = [] then None else digits_acc 0 s)"

definition digit_char :: "int \<Rightarrow> char" where
  "digit_char d = char_of (48 + nat (d mod 10))"

definition pad2 :: "int \<Rightarrow> string" where
  "pad2 n = [digit_char (n div 10), digit_char n]"

definition pad4 :: "int \<Rightarrow> string" where
  "pad4 n = [digit_char (n div 1000), digit_char (n div 100), digit_char (n div 10), digit_char n]"

text \<open>
  \<^verbatim>\<open>strftime("%Y-%m-%d")\<close> of the calendar day that is \<open>z\<close> days after the epoch
  (years of four digits, which is every day the clock can show).
\<close>

definition strftime_ymd :: "int \<Rightarrow> string" where
  "strftime_ymd z =
     (case civil_from_days z of (y, m, d) \<Rightarrow> pad4 y @ ''-'' @ pad2 m @ ''-'' @ pad2 d)"

text \<open>
  The strings \<^verbatim>\<open>pd.to_datetime\<close> reads in this model are the ISO 8601 forms the
  API and the tables hold: a date \<^verbatim>\<open>YYYY-MM-DD\<close>, alone or followed by
  \<^verbatim>\<open>THH:MM:SS\<close> and then nothing (a naive time), \<^verbatim>\<open>Z\<close> or an offset
  \<^verbatim>\<open>+HH:MM\<close> / \<^verbatim>\<open>-HH:MM\<close>. Any other string is not a date here (pandas reads
  more formats than these, and raises on a string it cannot read).
\<close>

definition parse_date :: "string \<Rightarrow> int option" where
  "parse_date s =
     (if length s = 10 \<and> s ! 4 = CHR ''-'' \<and> s ! 7 = CHR ''-'' then
        (case (digits (take 4 s), digits (take 2 (drop 5 s)), digits (drop 8 s)) of
           (Some y, Some m, Some d) \<Rightarrow>
             if 1 \<le> y \<and> 1 \<le> m \<and> m \<le> 12 \<and> 1 \<le> d \<and> d \<le> days_in_month y m
             then Some (days_from_civil y m d) else None
         | _ \<Rightarrow> None)
      else None)"

definition parse_time :: "string \<Rightarrow> int option" where
  "parse_time s =
     (if length s = 8 \<and> s ! 2 = CHR '':'' \<and> s ! 5 = CHR '':'' then
        (case (digits (take 2 s), digits (take 2 (drop 3 s)), digits (drop 6 s)) of
           (Some h, Some m, Some sec) \<Rightarrow>
             if h < 24 \<and> m < 60 \<and> sec < 60 then Some (h * 3600 + m * 60 + sec) else None
         | _ \<Rightarrow> None)
      else None)"

definition parse_tz :: "string \<Rightarrow> tzinfo option" where
  "parse_tz s =
     (if s = [] then Some Naive
      else if s = ''Z'' then Some (Offset 0)
      else if length s = 6 \<and> (s ! 0 = CHR ''+'' \<or> s ! 0 = CHR ''-'') \<and> s ! 3 = CHR '':'' then
        (case (digits (take 2 (drop 1 s)), digits (drop 4 s)) of
           (Some h, Some m) \<Rightarrow>
             if h < 24 \<and> m < 60
             then Some (Offset ((if s ! 0 = CHR ''-'' then - 1 else 1) * (h * 3600 + m * 60)))
             else None
         | _ \<Rightarrow> None)
      else None)"

definition tz_offset :: "tzinfo \<Rightarrow> int" where
  "tz_offset z = (case z of Naive \<Rightarrow> 0 | Offset s \<Rightarrow> s)"

text \<open>The instant of a string, in seconds since the epoch, with its time zone.\<close>

definition parse_iso :: "string \<Rightarrow> (int \<times> tzinfo) option" where
  "parse_iso s =
     (if length s = 10 then
        (case parse_date s of None \<Rightarrow> None | Some d \<Rightarrow> Some (d * 86400, Naive))
      else if 19 \<le> length s \<and> s ! 10 = CHR ''T'' then
        (case (parse_date (take 10 s), parse_time (take 8 (drop 11 s)), parse_tz (drop 19 s)) of
           (Some d, Some t, Some z) \<Rightarrow> Some (d * 86400 + t - tz_offset z, z)
         | _ \<Rightarrow> None)
      else None)"

text \<open>
  A pandas timestamp counts nanoseconds in 64 bits; the least value is kept for
  \<^verbatim>\<open>NaT\<close>. An instant outside raises \<^verbatim>\<open>OutOfBoundsDatetime\<close>.
\<close>

definition ns_per_second :: int where
  "ns_per_second = 1000000000"

definition ns_per_minute :: int where
  "ns_per_minute = 60 * ns_per_second"

definition ns_per_day :: int where
  "ns_per_day = 86400 * ns_per_second"

definition timestamp :: "int \<Rightarrow> tzinfo \<Rightarrow> error + cell" where
  "timestamp ns z =
     (if - (2 ^ 63) < ns \<and> ns < 2 ^ 63 then Inr (Ts ns z) else Inl OutOfBoundsDatetime)"

datatype time_unit = NoUnit | Seconds

text \<open>
  \<^verbatim>\<open>pd.to_datetime\<close> on one cell. Without a unit a number counts nanoseconds and a
  string is parsed; with \<^verbatim>\<open>unit="s"\<close> a number counts seconds since the epoch, and
  so does a string that is a plain run of digits.
\<close>

fun to_datetime_cell :: "time_unit \<Rightarrow> cell \<Rightarrow> error + cell" where
  "to_datetime_cell u NA = Inr NA"
| "to_datetime_cell u (Ts t z) = Inr (Ts t z)"
| "to_datetime_cell u (Date d) = timestamp (d * ns_per_day) Naive"
| "to_datetime_cell NoUnit (Num n) = timestamp n Naive"
| "to_datetime_cell Seconds (Num n) = timestamp (n * ns_per_second) Naive"
| "to_datetime_cell NoUnit (Str s) =
     (case parse_iso s of
        None \<Rightarrow> Inl ValueError
      | Some (secs, z) \<Rightarrow> timestamp (secs * ns_per_second) z)"
| "to_datetime_cell Seconds (Str s) =
     (case digits s of
        None \<Rightarrow> Inl ValueError
      | Some n \<Rightarrow> timestamp (n * ns_per_second) Naive)"

text \<open>
  \<^verbatim>\<open>utc=True\<close>: a naive time is taken as UTC and an aware one is converted to UTC;
  the instant stays.
\<close>

definition to_utc :: "cell \<Rightarrow> cell" where
  "to_utc v = (case v of Ts t z \<Rightarrow> Ts t (Offset 0) | _ \<Rightarrow> v)"

definition tz_of :: "cell \<Rightarrow> tzinfo option" where
  "tz_of v = (case v of Ts t z \<Rightarrow> Some z | _ \<Rightarrow> None)"

text \<open>
  Without \<^verbatim>\<open>utc=True\<close> the timestamps of a column keep their zone. pandas has no
  datetime column of several zones: the conversion, or the \<^verbatim>\<open>.dt\<close> accessor after
  it, raises.
\<close>

definition same_tz :: "column \<Rightarrow> bool" where
  "same_tz xs = (case filter (\<lambda>z. z \<noteq> None) (map tz_of xs) of
                   [] \<Rightarrow> True
                 | z # zs \<Rightarrow> list_all (\<lambda>z'. z' = z) zs)"

definition to_datetime :: "time_unit \<Rightarrow> bool \<Rightarrow> column \<Rightarrow> error + column" where
  "to_datetime u utc xs =
     thenE (map_err (to_datetime_cell u) xs) (\<lambda>ts.
       if utc then Inr (map to_utc ts)
       else if same_tz ts then Inr ts
       else Inl ValueError)"

text \<open>
  \<^verbatim>\<open>.dt.floor("min")\<close> and \<^verbatim>\<open>.dt.date\<close>, on the wall-clock time of the
  timestamp's zone; \<^verbatim>\<open>NaT\<close> stays, and a cell that is no timestamp has no
  \<^verbatim>\<open>.dt\<close>.
\<close>

fun floor_min_cell :: "cell \<Rightarrow> error + cell" where
  "floor_min_cell NA = Inr NA"
| "floor_min_cell (Ts t z) =
     (let w = t + tz_offset z * ns_per_second
      in Inr (Ts (w - w mod ns_per_minute - tz_offset z * ns_per_second) z))"
| "floor_min_cell _ = Inl AttributeError"

definition dt_floor_min :: "column \<Rightarrow> error + column" where
  "dt_floor_min xs = map_err floor_min_cell xs"

fun date_cell :: "cell \<Rightarrow> error + cell" where
  "date_cell NA = Inr NA"
| "date_cell (Ts t z) = Inr (Date ((t + tz_offset z * ns_per_second) div ns_per_day))"
| "date_cell _ = Inl AttributeError"

definition dt_date :: "column \<Rightarrow> error + column" where
  "dt_date xs = map_err date_cell xs"

definition format_datetime_columns :: "dataframe \<Rightarrow> error + dataframe" where
  "format_datetime_columns df =
     thenE
       (if ''fixture_date'' \<in> set (columns df) then
          thenE (getitem df ''fixture_date'') (\<lambda>xs.
          thenE (to_datetime NoUnit True xs) (\<lambda>ts.
          thenE (dt_floor_min ts) (\<lambda>fs.
          Inr (setitem ''fixture_date'' fs df))))
        else Inr df)
       (\<lambda>df1.
     thenE
       (if ''fixture_periods_first'' \<in> set (columns df1) then
          thenE (getitem df1 ''fixture_periods_first'') (\<lambda>xs.
          thenE (to_datetime Seconds True xs) (\<lambda>ts.
          thenE (dt_floor_min ts) (\<lambda>fs.
          Inr (setitem ''fixture_periods_first'' fs df1))))
        else Inr df1)
       (\<lambda>df2.
        if ''fixture_periods_second'' \<in> set (columns df2) then
          thenE (getitem df2 ''fixture_periods_second'') (\<lambda>xs.
          thenE (to_datetime Seconds True xs) (\<lambda>ts.
          thenE (dt_floor_min ts) (\<lambda>fs.
          Inr (setitem ''fixture_periods_second'' fs df2))))
        else Inr df2))"

definition event_date_from :: "string \<Rightarrow> dataframe \<Rightarrow> error + dataframe" where
  "event_date_from c df =
     thenE (getitem df c) (\<lambda>xs.
     thenE (to_datetime NoUnit False xs) (\<lambda>ts.
     let df1 = setitem c ts df in
     thenE (getitem df1 c) (\<lambda>ts'.
     thenE (dt_date ts') (\<lambda>ds.
     Inr (setitem ''event_date'' ds df1)))))"

definition add_event_date_from_fixture_date :: "dataframe \<Rightarrow> error + dataframe" where
  "add_event_date_from_fixture_date df =
     (if ''fixture.date'' \<in> set (columns df) then event_date_from ''fixture.date'' df
      else if ''fixture_date'' \<in> set (columns df) then event_date_from ''fixture_date'' df
      else Inr df)"

definition ensure_event_date_utc :: "dataframe \<Rightarrow> error + dataframe" where
  "ensure_event_date_utc df =
     (if ''event_date'' \<in> set (columns df) then
        thenE (getitem df ''event_date'') (\<lambda>xs.
        thenE (to_datetime NoUnit True xs) (\<lambda>ts.
        Inr (setitem ''event_date'' ts df)))
      else Inr df)"

section \<open>Pruning and casting columns\<close>

definition cols_drop :: "string list" where
  "cols_drop =
     [''fixture_referee'', ''fixture_timezone'', ''fixture_timestamp'',
      ''fixture_periods_second'', ''fixture_status_long'', ''fixture_status_extra'',
      ''league_logo'', ''league_flag'', ''teams_home_logo'', ''teams_away_logo'']"

definition drop_irrelevant_cols :: "dataframe \<Rightarrow> dataframe" where
  "drop_irrelevant_cols df =
     (let existing = filter (\<lambda>c. c \<in> set (columns df)) cols_drop
      in if existing \<noteq> [] then drop_columns existing df else df)"

text \<open>
  \<^verbatim>\<open>Series.astype(dtype)\<close> is the library's conversion of one column to the dtype
  of that name; it is a parameter of the casts below, which decide the columns it is
  applied to. \<^verbatim>\<open>df.astype(d)\<close> with a dictionary \<open>d\<close> from labels to dtype names
  raises \<^verbatim>\<open>KeyError\<close> for a key that is no column, converts the columns that are
  keys and leaves the others.
\<close>

type_synonym astype = "string \<Rightarrow> column \<Rightarrow> error + column"

definition astype_column :: "astype \<Rightarrow> (string \<times> string) list \<Rightarrow> string \<times> column \<Rightarrow>
    error + string \<times> column" where
  "astype_column astype d = (\<lambda>(k, xs).
     case map_of d k of
       None \<Rightarrow> Inr (k, xs)
     | Some t \<Rightarrow> thenE (astype t xs) (\<lambda>ys. Inr (k, ys)))"

definition df_astype :: "astype \<Rightarrow> (string \<times> string) list \<Rightarrow> dataframe \<Rightarrow> error + dataframe" where
  "df_astype astype d df =
     (if list_all (\<lambda>(k, t). k \<in> set (columns df)) d
      then map_err (astype_column astype d) df
      else Inl KeyError)"

definition type_mapping_numeric :: "(string \<times> string) list" where
  "type_mapping_numeric =
     [(''fixture_venue_id'', ''Int64''), (''fixture_status_elapsed'', ''Int64''),
      (''goals_home'', ''Int64''), (''goals_away'', ''Int64''),
      (''score_halftime_home'', ''Int64''), (''score_halftime_away'', ''Int64''),
      (''score_fulltime_home'', ''Int64''), (''score_fulltime_away'', ''Int64''),
      (''score_extratime_home'', ''Int64''), (''score_extratime_away'', ''Int64''),
      (''score_penalty_home'', ''Int64''), (''score_penalty_away'', ''Int64''),
      (''total_goals'', ''Int64'')]"

definition type_mapping_string :: "(string \<times> string) list" where
  "type_mapping_string =
     [(''fixture_venue_name'', ''string''), (''fixture_venue_city'', ''string''),
      (''fixture_status_short'', ''string''), (''league_name'', ''string''),
      (''league_country'', ''string''), (''league_round'', ''string''),
      (''teams_home_name'', ''string''), (''teams_away_name'', ''string''),
      (''match_winner'', ''string'')]"

definition cast_column_types :: "astype \<Rightarrow> dataframe \<Rightarrow> error + dataframe" where
  "cast_column_types astype df =
     (let num_exists = filter (\<lambda>(k, v). k \<in> set (columns df)) type_mapping_numeric;
          text_exists = filter (\<lambda>(k, v). k \<in> set (columns df)) type_mapping_string
      in thenE (if num_exists \<noteq> [] then df_astype astype num_exists df else Inr df) (\<lambda>df1.
         if text_exists \<noteq> [] then df_astype astype text_exists df1 else Inr df1))"

definition categoricals :: "(string \<times> string) list" where
  "categoricals =
     [(''fixture_status_short'', ''category''), (''league_round'', ''category''),
      (''match_winner'', ''category'')]"

definition cast_gold_categoricals :: "astype \<Rightarrow> dataframe \<Rightarrow> error + dataframe" where
  "cast_gold_categoricals astype df =
     (let existing = filter (\<lambda>(k, v). k \<in> set (columns df)) categoricals
      in if existing \<noteq> [] then df_astype astype existing df else Inr df)"

section \<open>Extraction\<close>

text \<open>
  A JSON value as \<^verbatim>\<open>response.json()\<close> returns it; \<^verbatim>\<open>JNull\<close> is Python's
  \<^verbatim>\<open>None\<close>, and an object holds its items. The network is a function from the URL
  requested to what came back: no response (the connection failed or timed out), or a
  status code with the body, which is \<open>None\<close> when it is not JSON.
\<close>

datatype json = JNull | JBool bool | JNum int | JStr string | JArr "json list"
  | JObj "(string \<times> json) list"

datatype http_outcome = NoResponse | Response nat "json option"

definition requests_get :: "(string \<Rightarrow> http_outcome) \<Rightarrow> string \<Rightarrow> error + nat \<times> json option" where
  "requests_get http url =
     (case http url of NoResponse \<Rightarrow> Inl RequestException | Response st body \<Rightarrow> Inr (st, body))"

definition raise_for_status :: "nat \<times> json option \<Rightarrow> error + unit" where
  "raise_for_status response =
     (if 400 \<le> fst response \<and> fst response < 600 then Inl HTTPError else Inr ())"

definition response_json :: "nat \<times> json option \<Rightarrow> error + json" where
  "response_json response =
     (case snd response of None \<Rightarrow> Inl JSONDecodeError | Some data \<Rightarrow> Inr data)"

text \<open>\<^verbatim>\<open>data[key]\<close> with a string key: only an object has string keys.\<close>

fun subscript :: "json \<Rightarrow> string \<Rightarrow> error + json" where
  "subscript (JObj items) k =
     (case map_of items k of None \<Rightarrow> Inl KeyError | Some v \<Rightarrow> Inr v)"
| "subscript _ k = Inl TypeError"

text \<open>
  The classes the two \<^verbatim>\<open>except\<close> clauses of \<^verbatim>\<open>get_data\<close> catch: a JSON decoding
  error is a \<^verbatim>\<open>ValueError\<close>, an HTTP status error is a \<^verbatim>\<open>RequestException\<close>.
\<close>

definition is_ValueError :: "error \<Rightarrow> bool" where
  "is_ValueError e = (e = ValueError \<or> e = JSONDecodeError)"

definition is_RequestException :: "error \<Rightarrow> bool" where
  "is_RequestException e = (e = RequestException \<or> e = HTTPError)"

text \<open>\<^verbatim>\<open>if data_field:\<close> holds for a string that is given and not empty.\<close>

definition truthy :: "string option \<Rightarrow> bool" where
  "truthy f = (case f of None \<Rightarrow> False | Some k \<Rightarrow> k \<noteq> [])"

definition get_data :: "(string \<Rightarrow> http_outcome) \<Rightarrow> string \<Rightarrow> string \<Rightarrow> string option \<Rightarrow>
    error + json" where
  "get_data http base_url endpoint data_field =
     (case
        thenE (requests_get http (base_url @ ''/'' @ endpoint)) (\<lambda>response.
        thenE (raise_for_status response) (\<lambda>u.
          case
            thenE (response_json response) (\<lambda>data.
              if truthy data_field then subscript data (the data_field) else Inr data)
          of
            Inl e \<Rightarrow> if is_ValueError e then Inr JNull else Inl e
          | Inr data \<Rightarrow> Inr data))
      of
        Inl e \<Rightarrow> if is_RequestException e then Inr JNull else Inl e
      | Inr data \<Rightarrow> Inr data)"

definition extract_data :: "(string \<Rightarrow> http_outcome) \<Rightarrow> string \<Rightarrow> string \<Rightarrow> error + json" where
  "extract_data http base_url endpoint =
     thenE (requests_get http (base_url @ ''/'' @ endpoint)) (\<lambda>response.
     thenE (raise_for_status response) (\<lambda>u.
     thenE (response_json response) (\<lambda>data.
     subscript data ''response'')))"

section \<open>The table store\<close>

text \<open>
  A Delta table is its rows, as a frame, and the columns it is partitioned by; the
  datalake is a map from paths to tables.
\<close>

record table =
  data :: dataframe
  partition_by :: "string list"

type_synonym store = "string \<Rightarrow> table option"

definition DeltaTable :: "store \<Rightarrow> string \<Rightarrow> error + table" where
  "DeltaTable st path = (case st path of None \<Rightarrow> Inl TableNotFoundError | Some t \<Rightarrow> Inr t)"






definition select_rows :: "bool list \<Rightarrow> column \<Rightarrow> column" where
  "select_rows keep xs = map snd (filter fst (zip keep xs))"

definition select_df :: "bool list \<Rightarrow> dataframe \<Rightarrow> dataframe" where
  "select_df keep df = map (\<lambda>(c, xs). (c, select_rows keep xs)) df"



text \<open>
  A partition filter \<^verbatim>\<open>(c, "=", s)\<close> compares the text of the partition value with
  \<open>s\<close>. The text of a string is the string and the text of a date is its
  \<^verbatim>\<open>YYYY-MM-DD\<close> form; a missing value has none, and the text of a number or of a
  timestamp is never a day in that form. The filter selects among the partitions of the
  table: on a column the table is not partitioned by it leaves nothing out, and every
  row is read. A table has the columns it is partitioned by; the case of one it does not
  have is there to make the function total.
\<close>

definition partition_text :: "cell \<Rightarrow> string option" where
  "partition_text v =
     (case v of Str s \<Rightarrow> Some s | Date d \<Rightarrow> Some (strftime_ymd d) | _ \<Rightarrow> None)"

definition to_pandas_partition :: "table \<Rightarrow> string \<Rightarrow> string \<Rightarrow> dataframe" where
  "to_pandas_partition t c s =
     (if c \<in> set (partition_by t) then
        (case map_of (data t) c of
           None \<Rightarrow> data t
         | Some vs \<Rightarrow> select_df (map (\<lambda>v. partition_text v = Some s) vs) (data t))
      else data t)"

text \<open>
  \<^verbatim>\<open>read_most_recent_partition\<close>; \<open>now\<close> is what \<^verbatim>\<open>datetime.utcnow()\<close>
  returns, in seconds since the epoch.
\<close>

definition read_most_recent_partition :: "int \<Rightarrow> string \<Rightarrow> store \<Rightarrow> error + dataframe" where
  "read_most_recent_partition now data_path st =
     (case
        (let requested_date = now - 86400 in
         thenE (DeltaTable st data_path) (\<lambda>dt.
         Inr (to_pandas_partition dt ''event_date'' (strftime_ymd (requested_date div 86400)))))
      of
        Inl e \<Rightarrow> Inl (Exception e)
      | Inr df_recent \<Rightarrow> Inr df_recent)"

definition read_all_from_delta :: "string \<Rightarrow> store \<Rightarrow> error + dataframe" where
  "read_all_from_delta path st = thenE (DeltaTable st path) (\<lambda>dt. Inr (data dt))"

section \<open>Example data and auxiliary definitions\<close>

text \<open>Three fixtures as the Silver stage sees them: a home win, a goalless draw and a
  match whose home goals are missing.\<close>

definition ex_silver :: dataframe where
  "ex_silver =
     [(''fixture_id'', [Num 100, Num 101, Num 102]),
      (''goals_home'', [Num 2, Num 0, NA]),
      (''goals_away'', [Num 1, Num 0, Num 3]),
      (''teams_home_winner'', [Num 1, NA, NA]),
      (''teams_away_winner'', [Num 0, NA, NA])]"

text \<open>A frame with neither goal column and one of the winner columns.\<close>

definition ex_no_goals :: dataframe where
  "ex_no_goals = [(''fixture_id'', [Num 100]), (''teams_home_winner'', [Num 1])]"

text \<open>A frame with none of the columns the transforms reference, and a conversion
  that would fail on any column it is given.\<close>

definition ex_ids :: dataframe where
  "ex_ids = [(''fixture_id'', [Num 100, Num 101])]"

definition astype_fails :: astype where
  "astype_fails t xs = Inl TypeError"

text \<open>The columns of a flattened API record, and a flattening that returns them.\<close>

definition ex_bronze :: dataframe where
  "ex_bronze =
     [(''fixture.id'', [Num 100]), (''Fixture.Status'', [Str ''FT'']), (''goals.home'', [Num 2])]"

text \<open>Two answers of the API with status 200: a body that is not JSON, and a JSON
  object without the field \<^verbatim>\<open>response\<close>.\<close>

definition ex_http_not_json :: "string \<Rightarrow> http_outcome" where
  "ex_http_not_json url = Response 200 None"

definition ex_http_no_field :: "string \<Rightarrow> http_outcome" where
  "ex_http_no_field url = Response 200 (Some (JObj [(''errors'', JArr [])]))"

text \<open>One guarded step of \<^verbatim>\<open>format_datetime_columns\<close>, which the function
  writes out three times; the proofs go step by step.\<close>

definition floor_step :: "string \<Rightarrow> time_unit \<Rightarrow> dataframe \<Rightarrow> error + dataframe" where
  "floor_step c u df =
     (if c \<in> set (columns df) then
        thenE (getitem df c) (\<lambda>xs.
        thenE (to_datetime u True xs) (\<lambda>ts.
        thenE (dt_floor_min ts) (\<lambda>fs.
        Inr (setitem c fs df))))
      else Inr df)"

text \<open>Two fixtures before the datetime step: one kicked off, one without times.\<close>

definition ex_times :: dataframe where
  "ex_times =
     [(''fixture_id'', [Num 100, Num 101]),
      (''fixture_date'', [Str ''2024-05-01T12:34:56Z'', NA]),
      (''fixture_periods_first'', [Num 1714566896, NA])]"

definition ex_times_floored :: dataframe where
  "ex_times_floored =
     [(''fixture_id'', [Num 100, Num 101]),
      (''fixture_date'', [Ts 1714566840000000000 (Offset 0), NA]),
      (''fixture_periods_first'', [Ts 1714566840000000000 (Offset 0), NA])]"

text \<open>A frame with both date columns: the API's holds a kick-off time, the other a
  text that is no date.\<close>

definition ex_both_dates :: dataframe where
  "ex_both_dates =
     [(''fixture.date'', [Str ''2024-05-01T12:34:56+00:00'']),
      (''fixture_date'', [Str ''not a date''])]"

definition ex_both_dates_result :: dataframe where
  "ex_both_dates_result =
     [(''fixture.date'', [Ts 1714566896000000000 (Offset 0)]),
      (''fixture_date'', [Str ''not a date'']),
      (''event_date'', [Date 19844])]"

text \<open>A datalake with one Bronze table of three fixtures, two of them played on
  2024-05-01 (day 19844), read at 00:30 UTC on 2024-05-02.\<close>

definition ex_bronze_table :: table where
  "ex_bronze_table =
     \<lparr>data = [(''fixture_id'', [Num 100, Num 90, Num 101]),
              (''event_date'', [Date 19844, Date 19843, Date 19844])],
      partition_by = [''event_date'']\<rparr>"

definition ex_lake :: store where
  "ex_lake = Map.empty(''bronze/fixtures'' \<mapsto> ex_bronze_table)"

definition ex_now :: int where
  "ex_now = 1714609800"

text \<open>The same rows in a table that was written without partitions.\<close>

definition cx_unpartitioned :: table where
  "cx_unpartitioned = ex_bronze_table\<lparr>partition_by := []\<rparr>"

definition cx_unpartitioned_lake :: store where
  "cx_unpartitioned_lake = Map.empty(''bronze/fixtures'' \<mapsto> cx_unpartitioned)"

text \<open>A sample conversion for the two dtypes of the Silver cast: to \<^verbatim>\<open>Int64\<close> it
  keeps numbers and reads strings of digits, to \<^verbatim>\<open>string\<close> it keeps strings and writes
  dates; missing values stay, and it raises on any other cell.\<close>

definition to_Int64 :: "cell \<Rightarrow> error + cell" where
  "to_Int64 v =
     (case v of
        NA \<Rightarrow> Inr NA
      | Num n \<Rightarrow> Inr (Num n)
      | Str s \<Rightarrow> (case digits s of None \<Rightarrow> Inl ValueError | Some n \<Rightarrow> Inr (Num n))
      | _ \<Rightarrow> Inl TypeError)"

definition to_string :: "cell \<Rightarrow> error + cell" where
  "to_string v =
     (case v of
        NA \<Rightarrow> Inr NA
      | Str s \<Rightarrow> Inr (Str s)
      | Date d \<Rightarrow> Inr (Str (strftime_ymd d))
      | _ \<Rightarrow> Inl TypeError)"

definition astype_sample :: astype where
  "astype_sample t xs =
     (if t = ''Int64'' then map_err to_Int64 xs
      else if t = ''string'' then map_err to_string xs
      else Inr xs)"

text \<open>A Silver frame before the cast, with goals still held as text, and after it.\<close>

definition ex_uncast :: dataframe where
  "ex_uncast =
     [(''fixture_id'', [Num 100, Num 101]),
      (''goals_home'', [Str ''2'', NA]),
      (''league_name'', [Str ''Liga'', Str ''Copa'']),
      (''total_goals'', [Num 3, NA])]"

definition ex_cast :: dataframe where
  "ex_cast =
     [(''fixture_id'', [Num 100, Num 101]),
      (''goals_home'', [Num 2, NA]),
      (''league_name'', [Str ''Liga'', Str ''Copa'']),
      (''total_goals'', [Num 3, NA])]"

text \<open>The assignment of one step of \<^verbatim>\<open>format_datetime_columns\<close> without its
  guard, and a run of such assignments over a list of columns, in order, ending at the
  first exception. They state which columns the function converts.\<close>

definition floor_column :: "string \<Rightarrow> time_unit \<Rightarrow> dataframe \<Rightarrow> error + dataframe" where
  "floor_column c u df =
     thenE (getitem df c) (\<lambda>xs.
     thenE (to_datetime u True xs) (\<lambda>ts.
     thenE (dt_floor_min ts) (\<lambda>fs.
     Inr (setitem c fs df))))"

fun fold_err :: "('a \<Rightarrow> 's \<Rightarrow> error + 's) \<Rightarrow> 'a list \<Rightarrow> 's \<Rightarrow> error + 's" where
  "fold_err f [] s = Inr s"
| "fold_err f (x # xs) s = thenE (f x s) (\<lambda>s'. fold_err f xs s')"

text \<open>A Silver frame that has some of the columns of each transform and lacks the
  others.\<close>

definition ex_partial :: dataframe where
  "ex_partial =
     [(''fixture_id'', [Num 100]),
      (''fixture_periods_first'', [Num 1714566896]),
      (''league_logo'', [Str ''logo.png'']),
      (''goals_home'', [Str ''2'']),
      (''league_round'', [Str ''Final''])]"







section \<open>Basic facts about frames and passes\<close>

lemma map_err_Inr_iff:
  "map_err f xs = Inr ys \<longleftrightarrow> length ys = length xs \<and> (\<forall>i < length xs. f (xs ! i) = Inr (ys ! i))"
proof (induction xs arbitrary: ys)
  case Nil
  then show ?case by auto
next
  case (Cons x xs)
  show ?case
  proof (cases ys)
    case Nil
    then show ?thesis by (auto split: sum.splits)
  next
    case (Cons y ys')
    then show ?thesis
      using Cons.IH [of ys'] by (auto simp: nth_Cons split: sum.splits nat.splits)
  qed
qed

lemma map_err_total:
  "list_all (\<lambda>x. \<exists>y. f x = Inr y) xs \<Longrightarrow> \<exists>ys. map_err f xs = Inr ys"
  by (induction xs) auto

lemma map_of_replace:
  "map_of (map (\<lambda>(k, ys). if k = c then (k, xs) else (k, ys)) df) k =
     (if k = c then (case map_of df c of None \<Rightarrow> None | Some ys \<Rightarrow> Some xs) else map_of df k)"
proof (induction df)
  case Nil
  then show ?case by simp
next
  case (Cons p df)
  obtain k' ys where p: "p = (k', ys)" by (cases p)
  show ?case using Cons.IH by (cases "k = c") (simp_all add: p)
qed

lemma map_of_setitem:
  "map_of (setitem c xs df) k = (if k = c then Some xs else map_of df k)"
proof (cases "c \<in> set (columns df)")
  case True
  then have "map_of df c \<noteq> None"
    by (simp add: columns_def map_of_eq_None_iff)
  then obtain ys where "map_of df c = Some ys" by blast
  with True show ?thesis by (simp add: setitem_def map_of_replace)
next
  case False
  then have "map_of df c = None" by (simp add: columns_def map_of_eq_None_iff)
  with False show ?thesis by (auto simp: setitem_def map_add_def split: option.splits)
qed

lemma columns_setitem:
  "columns (setitem c xs df) = (if c \<in> set (columns df) then columns df else columns df @ [c])"
proof -
  have "map fst (map (\<lambda>(k, ys). if k = c then (k, xs) else (k, ys)) df) = map fst df"
    by (induction df) auto
  then show ?thesis by (simp add: setitem_def columns_def)
qed

lemma map_of_drop_columns:
  "map_of (drop_columns cs df) k = (if k \<in> set cs then None else map_of df k)"
  unfolding drop_columns_def by (induction df) auto

lemma columns_drop_columns:
  "columns (drop_columns cs df) = filter (\<lambda>k. k \<notin> set cs) (columns df)"
  unfolding drop_columns_def columns_def by (induction df) auto

lemma getitem_Inr_iff: "getitem df c = Inr xs \<longleftrightarrow> map_of df c = Some xs"
  by (simp add: getitem_def split: option.splits)

lemma in_columns_iff: "c \<in> set (columns df) \<longleftrightarrow> map_of df c \<noteq> None"
  by (simp add: columns_def map_of_eq_None_iff)

lemma wf_df_length: "wf_df df \<Longrightarrow> map_of df c = Some xs \<Longrightarrow> length xs = nrows df"
  by (auto simp: wf_df_def list_all_iff dest!: map_of_SomeD)


lemma winner_NA: "winner NA ga = Inr NA" "winner gh NA = Inr NA"
  by (simp_all add: winner_def notna_def)

lemma winner_Num:
  "winner (Num a) (Num b) =
     Inr (Str (if b < a then ''Home'' else if a < b then ''Away'' else ''Draw''))"
  by (simp add: winner_def notna_def py_gt_def thenE_def)

lemma winner_goal_count: "goal_count gh \<Longrightarrow> goal_count ga \<Longrightarrow> \<exists>w. winner gh ga = Inr w"
  by (cases gh; cases ga) (simp_all add: goal_count_def winner_NA winner_Num)

lemma py_add_goal_count: "goal_count gh \<Longrightarrow> goal_count ga \<Longrightarrow> \<exists>w. py_add gh ga = Inr w"
  by (cases gh; cases ga) (simp_all add: goal_count_def)

lemma list_all_zip:
  "list_all P xs \<Longrightarrow> list_all Q ys \<Longrightarrow> list_all (\<lambda>(x, y). P x \<and> Q y) (zip xs ys)"
  by (induction xs arbitrary: ys) (auto simp: zip_Cons1 split: list.splits)

lemma apply_winner_total:
  assumes "list_all goal_count ghs" "list_all goal_count gas"
  shows "\<exists>ws. apply_winner ghs gas = Inr ws"
proof -
  have "list_all (\<lambda>(x, y). goal_count x \<and> goal_count y) (zip ghs gas)"
    using assms by (rule list_all_zip)
  then have "list_all (\<lambda>p. \<exists>w. (case p of (gh, ga) \<Rightarrow> winner gh ga) = Inr w) (zip ghs gas)"
    by (auto simp: list_all_iff winner_goal_count)
  then show ?thesis unfolding apply_winner_def by (rule map_err_total)
qed

lemma add_columns_total:
  assumes "list_all goal_count ghs" "list_all goal_count gas"
  shows "\<exists>ws. add_columns ghs gas = Inr ws"
proof -
  have "list_all (\<lambda>(x, y). goal_count x \<and> goal_count y) (zip ghs gas)"
    using assms by (rule list_all_zip)
  then have "list_all (\<lambda>p. \<exists>w. (case p of (gh, ga) \<Rightarrow> py_add gh ga) = Inr w) (zip ghs gas)"
    by (auto simp: list_all_iff py_add_goal_count)
  then show ?thesis unfolding add_columns_def by (rule map_err_total)
qed

lemma apply_winner_nth:
  "apply_winner ghs gas = Inr ws \<Longrightarrow> i < length ghs \<Longrightarrow> i < length gas \<Longrightarrow>
     i < length ws \<and> winner (ghs ! i) (gas ! i) = Inr (ws ! i)"
  by (auto simp: apply_winner_def map_err_Inr_iff)

lemma add_columns_nth:
  "add_columns ghs gas = Inr ws \<Longrightarrow> i < length ghs \<Longrightarrow> i < length gas \<Longrightarrow>
     i < length ws \<and> py_add (ghs ! i) (gas ! i) = Inr (ws ! i)"
  by (auto simp: add_columns_def map_err_Inr_iff)

lemma add_match_winner_present:
  assumes gh: "map_of df ''goals_home'' = Some ghs"
    and ga: "map_of df ''goals_away'' = Some gas"
    and ws: "apply_winner ghs gas = Inr ws"
  shows "\<exists>df1. add_match_winner df = Inr df1 \<and> map_of df1 ''match_winner'' = Some ws \<and>
           map_of df1 ''goals_home'' = Some ghs \<and> map_of df1 ''goals_away'' = Some gas"
proof -
  define d where "d = setitem ''match_winner'' ws df"
  define cs where "cs = filter (\<lambda>c. c \<in> set (columns d))
                          [''teams_home_winner'', ''teams_away_winner'']"
  define r where "r = (if cs \<noteq> [] then drop_columns cs d else d)"
  have pre: "''goals_home'' \<in> set (columns df) \<and> ''goals_away'' \<in> set (columns df)"
    using gh ga by (simp add: in_columns_iff)
  have run: "add_match_winner df = Inr r"
    unfolding add_match_winner_def r_def cs_def d_def using pre gh ga ws
    by (simp add: thenE_def getitem_def Let_def)
  have sub: "set cs \<subseteq> {''teams_home_winner'', ''teams_away_winner''}"
    unfolding cs_def by auto
  have keep: "map_of r k = map_of d k"
    if "k \<noteq> ''teams_home_winner''" "k \<noteq> ''teams_away_winner''" for k
    using that sub unfolding r_def by (auto simp: map_of_drop_columns)
  have "map_of r ''match_winner'' = Some ws" "map_of r ''goals_home'' = Some ghs"
    "map_of r ''goals_away'' = Some gas"
    using gh ga by (simp_all add: keep d_def map_of_setitem)
  with run show ?thesis by blast
qed

lemma add_total_goals_present:
  assumes gh: "map_of df ''goals_home'' = Some ghs"
    and ga: "map_of df ''goals_away'' = Some gas"
    and ws: "add_columns ghs gas = Inr tot"
  shows "add_total_goals df = Inr (setitem ''total_goals'' tot df)"
proof -
  have pre: "''goals_home'' \<in> set (columns df) \<and> ''goals_away'' \<in> set (columns df)"
    using gh ga by (simp add: in_columns_iff)
  show ?thesis
    unfolding add_total_goals_def using pre gh ga ws
    by (simp add: thenE_def getitem_def)
qed

section \<open>Match winner and total goals, row by row\<close>

text \<open>
  Claim C2. On a frame whose goal columns hold goal counts (numbers or missing values),
  \<^verbatim>\<open>add_match_winner\<close> followed by \<^verbatim>\<open>add_total_goals\<close> returns a frame, and in
  every row of it: goals 2 and 1 give the winner \<^verbatim>\<open>"Home"\<close> and 3 total goals; equal
  goals, both present, give \<^verbatim>\<open>"Draw"\<close>; a missing goal count on either side gives
  a missing winner and a missing total.
\<close>

theorem goals_rows:
  assumes wf: "wf_df df"
    and gh: "getitem df ''goals_home'' = Inr ghs"
    and ga: "getitem df ''goals_away'' = Inr gas"
    and cnt: "list_all goal_count ghs" "list_all goal_count gas"
  shows "\<exists>df1 df2. add_match_winner df = Inr df1 \<and> add_total_goals df1 = Inr df2 \<and>
     (\<forall>i < nrows df.
        (ghs ! i = Num 2 \<and> gas ! i = Num 1 \<longrightarrow>
           cell_at df2 ''match_winner'' i = Some (Str ''Home'') \<and>
           cell_at df2 ''total_goals'' i = Some (Num 3)) \<and>
        (\<forall>n. ghs ! i = Num n \<and> gas ! i = Num n \<longrightarrow>
           cell_at df2 ''match_winner'' i = Some (Str ''Draw'')) \<and>
        (ghs ! i = NA \<or> gas ! i = NA \<longrightarrow>
           cell_at df2 ''match_winner'' i = Some NA \<and>
           cell_at df2 ''total_goals'' i = Some NA))"
proof -
  have mgh: "map_of df ''goals_home'' = Some ghs" and mga: "map_of df ''goals_away'' = Some gas"
    using gh ga by (simp_all add: getitem_Inr_iff)
  have len: "length ghs = nrows df" "length gas = nrows df"
    using wf mgh mga by (simp_all add: wf_df_length)
  obtain ws where ws: "apply_winner ghs gas = Inr ws"
    using apply_winner_total [OF cnt] by blast
  obtain tot where tot: "add_columns ghs gas = Inr tot"
    using add_columns_total [OF cnt] by blast
  obtain df1 where df1: "add_match_winner df = Inr df1"
      "map_of df1 ''match_winner'' = Some ws"
      "map_of df1 ''goals_home'' = Some ghs" "map_of df1 ''goals_away'' = Some gas"
    using add_match_winner_present [OF mgh mga ws] by blast
  let ?df2 = "setitem ''total_goals'' tot df1"
  have df2: "add_total_goals df1 = Inr ?df2"
    using df1(3,4) tot by (rule add_total_goals_present)
  have mw: "map_of ?df2 ''match_winner'' = Some ws" and tg: "map_of ?df2 ''total_goals'' = Some tot"
    using df1(2) by (simp_all add: map_of_setitem)
  have rows: "(ghs ! i = Num 2 \<and> gas ! i = Num 1 \<longrightarrow>
           cell_at ?df2 ''match_winner'' i = Some (Str ''Home'') \<and>
           cell_at ?df2 ''total_goals'' i = Some (Num 3)) \<and>
        (\<forall>n. ghs ! i = Num n \<and> gas ! i = Num n \<longrightarrow>
           cell_at ?df2 ''match_winner'' i = Some (Str ''Draw'')) \<and>
        (ghs ! i = NA \<or> gas ! i = NA \<longrightarrow>
           cell_at ?df2 ''match_winner'' i = Some NA \<and>
           cell_at ?df2 ''total_goals'' i = Some NA)" if i: "i < nrows df" for i
  proof -
    have w: "i < length ws" "winner (ghs ! i) (gas ! i) = Inr (ws ! i)"
      using apply_winner_nth [OF ws, of i] i len by simp_all
    have t: "i < length tot" "py_add (ghs ! i) (gas ! i) = Inr (tot ! i)"
      using add_columns_nth [OF tot, of i] i len by simp_all
    have cw: "cell_at ?df2 ''match_winner'' i = Some (ws ! i)"
      using mw w(1) by (simp add: cell_at_def)
    have ct: "cell_at ?df2 ''total_goals'' i = Some (tot ! i)"
      using tg t(1) by (simp add: cell_at_def)
    have na: "ghs ! i = NA \<or> gas ! i = NA \<Longrightarrow> ws ! i = NA \<and> tot ! i = NA"
      using w(2) t(2) by (cases "ghs ! i") (auto simp: winner_NA)
    show ?thesis
      using w(2) t(2) na by (auto simp: cw ct winner_Num)
  qed
  show ?thesis
    using df1(1) df2 rows by blast
qed

theorem goals_rows_witness:
  "wf_df ex_silver \<and>
   getitem ex_silver ''goals_home'' = Inr [Num 2, Num 0, NA] \<and>
   getitem ex_silver ''goals_away'' = Inr [Num 1, Num 0, Num 3] \<and>
   list_all goal_count [Num 2, Num 0, NA] \<and>
   list_all goal_count [Num 1, Num 0, Num 3] \<and>
   (\<exists>df1 df2. add_match_winner ex_silver = Inr df1 \<and> add_total_goals df1 = Inr df2 \<and>
      cell_at df2 ''match_winner'' 0 = Some (Str ''Home'') \<and>
      cell_at df2 ''total_goals'' 0 = Some (Num 3) \<and>
      cell_at df2 ''match_winner'' 1 = Some (Str ''Draw'') \<and>
      cell_at df2 ''match_winner'' 2 = Some NA \<and>
      cell_at df2 ''total_goals'' 2 = Some NA)"
proof -
  have wf: "wf_df ex_silver"
    by (simp add: wf_df_def ex_silver_def columns_def nrows_def)
  have gh: "getitem ex_silver ''goals_home'' = Inr [Num 2, Num 0, NA]"
    by (simp add: getitem_def ex_silver_def)
  have ga: "getitem ex_silver ''goals_away'' = Inr [Num 1, Num 0, Num 3]"
    by (simp add: getitem_def ex_silver_def)
  have c1: "list_all goal_count [Num 2, Num 0, NA]"
    and c2: "list_all goal_count [Num 1, Num 0, Num 3]"
    by (simp_all add: goal_count_def)
  have n: "nrows ex_silver = 3"
    by (simp add: nrows_def ex_silver_def)
  from goals_rows [OF wf gh ga c1 c2] obtain df1 df2 where
    run: "add_match_winner ex_silver = Inr df1" "add_total_goals df1 = Inr df2"
    and rows: "\<forall>i < nrows ex_silver.
        ([Num 2, Num 0, NA] ! i = Num 2 \<and> [Num 1, Num 0, Num 3] ! i = Num 1 \<longrightarrow>
           cell_at df2 ''match_winner'' i = Some (Str ''Home'') \<and>
           cell_at df2 ''total_goals'' i = Some (Num 3)) \<and>
        (\<forall>n. [Num 2, Num 0, NA] ! i = Num n \<and> [Num 1, Num 0, Num 3] ! i = Num n \<longrightarrow>
           cell_at df2 ''match_winner'' i = Some (Str ''Draw'')) \<and>
        ([Num 2, Num 0, NA] ! i = NA \<or> [Num 1, Num 0, Num 3] ! i = NA \<longrightarrow>
           cell_at df2 ''match_winner'' i = Some NA \<and>
           cell_at df2 ''total_goals'' i = Some NA)"
    by blast
  have r0: "cell_at df2 ''match_winner'' 0 = Some (Str ''Home'') \<and>
            cell_at df2 ''total_goals'' 0 = Some (Num 3)"
    using rows [rule_format, of 0] n by simp
  have r1: "cell_at df2 ''match_winner'' 1 = Some (Str ''Draw'')"
    using rows [rule_format, of 1] n by simp
  have r2: "cell_at df2 ''match_winner'' 2 = Some NA \<and> cell_at df2 ''total_goals'' 2 = Some NA"
    using rows [rule_format, of 2] n by simp
  show ?thesis
    using wf gh ga c1 c2 run r0 r1 r2 by blast
qed

lemma thenE_Inr: "thenE r f = Inr y \<longleftrightarrow> (\<exists>x. r = Inr x \<and> f x = Inr y)"
  by (cases r) (simp_all add: thenE_def)

lemma thenE_Inl: "thenE r f = Inl e \<longleftrightarrow> r = Inl e \<or> (\<exists>x. r = Inr x \<and> f x = Inl e)"
  by (cases r) (simp_all add: thenE_def)

lemma filter_absent: "set cs \<inter> S = {} \<Longrightarrow> filter (\<lambda>c. c \<in> S) cs = []"
  by (induction cs) auto

lemma filter_keys_absent:
  "set (map fst d) \<inter> S = {} \<Longrightarrow> filter (\<lambda>(k, v). k \<in> S) d = []"
  by (induction d) auto

lemma drop_columns_present:
  "drop_columns (filter (\<lambda>c. c \<in> set (columns df)) cs) df = drop_columns cs df"
  unfolding drop_columns_def columns_def
  by (rule filter_cong) force+

lemma drop_columns_Nil: "drop_columns [] df = df"
  by (simp add: drop_columns_def)

lemma add_match_winner_no_goals:
  assumes "''goals_home'' \<notin> set (columns df) \<or> ''goals_away'' \<notin> set (columns df)"
  shows "add_match_winner df = Inr (drop_columns [''teams_home_winner'', ''teams_away_winner''] df)"
proof -
  define cs where "cs = filter (\<lambda>c. c \<in> set (columns df))
                          [''teams_home_winner'', ''teams_away_winner'']"
  have run: "add_match_winner df = Inr (if cs \<noteq> [] then drop_columns cs df else df)"
    unfolding add_match_winner_def cs_def using assms by (auto simp: thenE_def Let_def)
  have "drop_columns cs df = drop_columns [''teams_home_winner'', ''teams_away_winner''] df"
    unfolding cs_def by (rule drop_columns_present)
  moreover have "cs = [] \<Longrightarrow> drop_columns cs df = df"
    by (simp add: drop_columns_Nil)
  ultimately show ?thesis using run by (cases "cs = []") simp_all
qed

lemma add_match_winner_columns:
  assumes "add_match_winner df = Inr df'"
  shows "''teams_home_winner'' \<notin> set (columns df') \<and> ''teams_away_winner'' \<notin> set (columns df')"
proof -
  obtain df1 where "(let drop_cols = filter (\<lambda>c. c \<in> set (columns df1))
                            [''teams_home_winner'', ''teams_away_winner'']
          in Inr (if drop_cols \<noteq> [] then drop_columns drop_cols df1 else df1)) =
       (Inr df' :: error + dataframe)"
    using assms unfolding add_match_winner_def thenE_Inr [where y = df'] by blast
  then have df1: "df' = (let drop_cols = filter (\<lambda>c. c \<in> set (columns df1))
                            [''teams_home_winner'', ''teams_away_winner'']
          in (if drop_cols \<noteq> [] then drop_columns drop_cols df1 else df1))"
    by (simp add: Let_def)
  define cs where "cs = filter (\<lambda>c. c \<in> set (columns df1))
                          [''teams_home_winner'', ''teams_away_winner'']"
  have e: "drop_columns cs df1 = drop_columns [''teams_home_winner'', ''teams_away_winner''] df1"
    unfolding cs_def by (rule drop_columns_present)
  have df1': "df' = (if cs \<noteq> [] then drop_columns cs df1 else df1)"
    using df1 unfolding Let_def cs_def .
  have "df' = drop_columns cs df1"
    using df1' by (cases "cs = []") (simp_all add: drop_columns_Nil)
  with e have eq: "df' = drop_columns [''teams_home_winner'', ''teams_away_winner''] df1"
    by simp
  show ?thesis unfolding eq by (simp add: columns_drop_columns)
qed

section \<open>The winner columns are dropped with or without goals\<close>

text \<open>
  Claim C9. \<^verbatim>\<open>add_match_winner\<close> never returns a frame with
  \<^verbatim>\<open>teams_home_winner\<close> or \<^verbatim>\<open>teams_away_winner\<close>. When \<^verbatim>\<open>goals_home\<close> or
  \<^verbatim>\<open>goals_away\<close> is absent it still returns the frame without these two columns, so
  a frame that has one of them is not returned unchanged.
\<close>

theorem add_match_winner_drops_regardless:
  "(add_match_winner df = Inr df' \<longrightarrow>
      ''teams_home_winner'' \<notin> set (columns df') \<and> ''teams_away_winner'' \<notin> set (columns df')) \<and>
   (''goals_home'' \<notin> set (columns df) \<or> ''goals_away'' \<notin> set (columns df) \<longrightarrow>
      add_match_winner df =
        Inr (drop_columns [''teams_home_winner'', ''teams_away_winner''] df) \<and>
      (''teams_home_winner'' \<in> set (columns df) \<or> ''teams_away_winner'' \<in> set (columns df) \<longrightarrow>
         add_match_winner df \<noteq> Inr df))"
proof (intro conjI impI)
  assume "add_match_winner df = Inr df'"
  then show "''teams_home_winner'' \<notin> set (columns df')"
    and "''teams_away_winner'' \<notin> set (columns df')"
    using add_match_winner_columns by blast+
next
  assume a: "''goals_home'' \<notin> set (columns df) \<or> ''goals_away'' \<notin> set (columns df)"
  then show r: "add_match_winner df =
        Inr (drop_columns [''teams_home_winner'', ''teams_away_winner''] df)"
    by (rule add_match_winner_no_goals)
  assume p: "''teams_home_winner'' \<in> set (columns df) \<or> ''teams_away_winner'' \<in> set (columns df)"
  have "columns (drop_columns [''teams_home_winner'', ''teams_away_winner''] df) \<noteq> columns df"
    using p by (auto simp: columns_drop_columns filter_id_conv)
  then show "add_match_winner df \<noteq> Inr df"
    using r by auto
qed

theorem add_match_winner_drops_regardless_witness:
  "add_match_winner ex_no_goals = Inr [(''fixture_id'', [Num 100])] \<and>
   ''goals_home'' \<notin> set (columns ex_no_goals) \<and>
   ''teams_home_winner'' \<in> set (columns ex_no_goals) \<and>
   ''teams_home_winner'' \<notin> set (columns [(''fixture_id'', [Num 100])]) \<and>
   ''teams_away_winner'' \<notin> set (columns [(''fixture_id'', [Num 100])]) \<and>
   add_match_winner ex_no_goals \<noteq> Inr ex_no_goals"
proof -
  have g: "''goals_home'' \<notin> set (columns ex_no_goals)"
    and t: "''teams_home_winner'' \<in> set (columns ex_no_goals)"
    by (simp_all add: ex_no_goals_def columns_def)
  have d: "drop_columns [''teams_home_winner'', ''teams_away_winner''] ex_no_goals =
        [(''fixture_id'', [Num 100])]"
    by (simp add: drop_columns_def ex_no_goals_def)
  note inst = add_match_winner_drops_regardless [of ex_no_goals "[(''fixture_id'', [Num 100])]"]
  have r: "add_match_winner ex_no_goals = Inr [(''fixture_id'', [Num 100])]"
    using inst g d by simp
  have c: "''teams_home_winner'' \<notin> set (columns [(''fixture_id'', [Num 100])]) \<and>
           ''teams_away_winner'' \<notin> set (columns [(''fixture_id'', [Num 100])])"
    using inst r by blast
  have n: "add_match_winner ex_no_goals \<noteq> Inr ex_no_goals"
    using inst g t by blast
  show ?thesis
    using r g t c n by blast
qed

lemma map_err_Inr_id: "list_all (\<lambda>x. f x = Inr x) xs \<Longrightarrow> map_err f xs = Inr xs"
  by (induction xs) auto

lemma df_astype_Nil: "df_astype astype [] df = Inr df"
proof -
  have "list_all (\<lambda>p. astype_column astype [] p = Inr p) df"
    by (auto simp: list_all_iff astype_column_def)
  then show ?thesis by (simp add: df_astype_def map_err_Inr_id)
qed

lemma format_datetime_columns_absent:
  assumes "set [''fixture_date'', ''fixture_periods_first'', ''fixture_periods_second'']
             \<inter> set (columns df) = {}"
  shows "format_datetime_columns df = Inr df"
  using assms by (simp add: format_datetime_columns_def thenE_def)

lemma drop_irrelevant_cols_absent:
  assumes "set cols_drop \<inter> set (columns df) = {}"
  shows "drop_irrelevant_cols df = df"
  using assms by (simp add: drop_irrelevant_cols_def filter_absent Let_def)

lemma add_match_winner_absent:
  assumes "''goals_home'' \<notin> set (columns df) \<or> ''goals_away'' \<notin> set (columns df)"
    and "''teams_home_winner'' \<notin> set (columns df)" "''teams_away_winner'' \<notin> set (columns df)"
  shows "add_match_winner df = Inr df"
proof -
  have "drop_columns [''teams_home_winner'', ''teams_away_winner''] df = df"
    using assms(2,3) unfolding drop_columns_def columns_def
    by (force simp: filter_id_conv)
  then show ?thesis using add_match_winner_no_goals [OF assms(1)] by simp
qed

lemma add_total_goals_absent:
  assumes "''goals_home'' \<notin> set (columns df) \<or> ''goals_away'' \<notin> set (columns df)"
  shows "add_total_goals df = Inr df"
  using assms by (auto simp: add_total_goals_def)

lemma cast_column_types_absent:
  assumes "set (map fst type_mapping_numeric) \<inter> set (columns df) = {}"
    and "set (map fst type_mapping_string) \<inter> set (columns df) = {}"
  shows "cast_column_types astype df = Inr df"
  using assms by (simp add: cast_column_types_def filter_keys_absent thenE_def Let_def)

lemma cast_gold_categoricals_absent:
  assumes "set (map fst categoricals) \<inter> set (columns df) = {}"
  shows "cast_gold_categoricals astype df = Inr df"
  using assms by (simp add: cast_gold_categoricals_def filter_keys_absent Let_def)

lemma ensure_event_date_utc_absent:
  assumes "''event_date'' \<notin> set (columns df)"
  shows "ensure_event_date_utc df = Inr df"
  using assms by (simp add: ensure_event_date_utc_def)

section \<open>Transforms on a frame without their columns\<close>

text \<open>
  Claim C3, as stated, fails: a frame that lacks one of the columns a transform
  references can hold another one, which the transform still processes. Here
  \<^verbatim>\<open>goals_home\<close> is absent and \<^verbatim>\<open>add_match_winner\<close> returns a different frame.
\<close>

theorem guard_counterexample:
  "''goals_home'' \<notin> set (columns ex_no_goals) \<and> add_match_winner ex_no_goals \<noteq> Inr ex_no_goals"
  by (simp add: ex_no_goals_def columns_def add_match_winner_def thenE_def drop_columns_def)

lemma columns_rename_columns: "columns (rename_columns f df) = map f (columns df)"
  unfolding columns_def rename_columns_def by (induction df) auto

lemma cells_rename_columns: "map snd (rename_columns f df) = map snd df"
  unfolding rename_columns_def by (induction df) auto

lemma char_lower_not_upper:
  "\<not> ((65 :: nat) \<le> of_char (char_lower c) \<and> of_char (char_lower c) \<le> (90 :: nat))"
proof (cases "(65 :: nat) \<le> of_char c \<and> of_char c \<le> (90 :: nat)")
  case True
  then have "(of_char c + 32) mod 256 = (of_char c + 32 :: nat)" by simp
  then have "of_char (char_lower c) = (of_char c + 32 :: nat)"
    using True by (simp add: char_lower_def)
  then show ?thesis using True by simp
next
  case False
  then show ?thesis by (simp add: char_lower_def)
qed

lemma standard_name_chars:
  assumes "ch \<in> set (replace_char (CHR ''.'') (CHR ''_'') (lower c))"
  shows "ch \<noteq> CHR ''.'' \<and> \<not> ((65 :: nat) \<le> of_char ch \<and> of_char ch \<le> (90 :: nat))"
proof -
  from assms obtain x where x: "x \<in> set c"
    and ch: "ch = (if char_lower x = CHR ''.'' then CHR ''_'' else char_lower x)"
    by (auto simp: replace_char_def lower_def)
  show ?thesis
  proof (cases "char_lower x = CHR ''.''")
    case True
    then show ?thesis using ch by simp
  next
    case False
    then show ?thesis using ch char_lower_not_upper [of x] by simp
  qed
qed

lemma rename_dict_fixture_id:
  "rename_dict [(''fixture.id'', ''fixture_id'')] c = (if c = ''fixture.id'' then ''fixture_id'' else c)"
  by (simp add: rename_dict_def)

lemma columns_rename_fixture_id:
  "columns (rename_fixture_id df) =
     map (\<lambda>c. if c = ''fixture.id'' then ''fixture_id'' else c) (columns df)"
proof (cases "''fixture.id'' \<in> set (columns df)")
  case True
  then show ?thesis
    by (simp add: rename_fixture_id_def columns_rename_columns rename_dict_fixture_id)
next
  case False
  then have "map (\<lambda>c. if c = ''fixture.id'' then ''fixture_id'' else c) (columns df) = columns df"
    by (intro map_idI) auto
  with False show ?thesis by (simp add: rename_fixture_id_def)
qed

lemma standard_fixture_status:
  "replace_char (CHR ''.'') (CHR ''_'') (lower ''Fixture.Status'') = ''fixture_status''"
  by code_simp

lemma standard_fixture_id:
  "replace_char (CHR ''.'') (CHR ''_'') (lower ''fixture_id'') = ''fixture_id''"
  by code_simp

lemma standard_goals_home:
  "replace_char (CHR ''.'') (CHR ''_'') (lower ''goals.home'') = ''goals_home''"
  by code_simp

section \<open>Standard column names\<close>

text \<open>
  Claim C4. \<^verbatim>\<open>standardize_column_names\<close> gives every column the lowercase form of
  its label with every \<^verbatim>\<open>.\<close> replaced by \<^verbatim>\<open>_\<close>, and changes no cell: no label of
  the result has a \<^verbatim>\<open>.\<close> or a capital letter, and \<^verbatim>\<open>Fixture.Status\<close> becomes
  \<^verbatim>\<open>fixture_status\<close>. \<^verbatim>\<open>transform_data\<close> has already renamed \<^verbatim>\<open>fixture.id\<close> to
  \<^verbatim>\<open>fixture_id\<close> through \<^verbatim>\<open>rename_fixture_id\<close>, so the frame it returns has no
  column \<^verbatim>\<open>fixture.id\<close>, and the later standardization keeps \<^verbatim>\<open>fixture_id\<close>.
\<close>

theorem standard_names:
  "columns (standardize_column_names df) =
     map (\<lambda>c. replace_char (CHR ''.'') (CHR ''_'') (lower c)) (columns df) \<and>
   map snd (standardize_column_names df) = map snd df \<and>
   (\<forall>c \<in> set (columns (standardize_column_names df)). \<forall>ch \<in> set c.
      ch \<noteq> CHR ''.'' \<and> \<not> ((65 :: nat) \<le> of_char ch \<and> of_char ch \<le> (90 :: nat))) \<and>
   columns (standardize_column_names [(''Fixture.Status'', xs)]) = [''fixture_status''] \<and>
   columns (transform_data json_normalize records) =
     map (\<lambda>c. if c = ''fixture.id'' then ''fixture_id'' else c) (columns (json_normalize records)) \<and>
   ''fixture.id'' \<notin> set (columns (transform_data json_normalize records)) \<and>
   columns (standardize_column_names (transform_data json_normalize records)) =
     map (\<lambda>c. if c = ''fixture.id'' then ''fixture_id''
               else replace_char (CHR ''.'') (CHR ''_'') (lower c))
       (columns (json_normalize records))"
proof (intro conjI)
  show c: "columns (standardize_column_names df) =
     map (\<lambda>c. replace_char (CHR ''.'') (CHR ''_'') (lower c)) (columns df)"
    by (simp add: standardize_column_names_def columns_rename_columns)
  show "map snd (standardize_column_names df) = map snd df"
    by (simp add: standardize_column_names_def cells_rename_columns)
  show "\<forall>c \<in> set (columns (standardize_column_names df)). \<forall>ch \<in> set c.
      ch \<noteq> CHR ''.'' \<and> \<not> ((65 :: nat) \<le> of_char ch \<and> of_char ch \<le> (90 :: nat))"
    unfolding c using standard_name_chars by auto
  show "columns (standardize_column_names [(''Fixture.Status'', xs)]) = [''fixture_status'']"
    by (simp add: standardize_column_names_def rename_columns_def columns_def
        standard_fixture_status)
  show t: "columns (transform_data json_normalize records) =
     map (\<lambda>c. if c = ''fixture.id'' then ''fixture_id'' else c) (columns (json_normalize records))"
    by (simp add: transform_data_def columns_rename_fixture_id)
  show "''fixture.id'' \<notin> set (columns (transform_data json_normalize records))"
    unfolding t by auto
  show "columns (standardize_column_names (transform_data json_normalize records)) =
     map (\<lambda>c. if c = ''fixture.id'' then ''fixture_id''
               else replace_char (CHR ''.'') (CHR ''_'') (lower c))
       (columns (json_normalize records))"
    by (simp add: standardize_column_names_def columns_rename_columns t o_def if_distrib
        standard_fixture_id cong: if_cong)
qed

theorem standard_names_witness:
  "columns (standardize_column_names ex_bronze) = [''fixture_id'', ''fixture_status'', ''goals_home''] \<and>
   list_all (\<lambda>c. list_all (\<lambda>ch. ch \<noteq> CHR ''.'') c) (columns (standardize_column_names ex_bronze)) \<and>
   columns (transform_data (\<lambda>u :: unit. ex_bronze) ()) =
     [''fixture_id'', ''Fixture.Status'', ''goals.home''] \<and>
   columns (standardize_column_names (transform_data (\<lambda>u :: unit. ex_bronze) ())) =
     [''fixture_id'', ''fixture_status'', ''goals_home'']"
proof -
  note inst = standard_names [of ex_bronze "[]" "\<lambda>u :: unit. ex_bronze" "()"]
  have c: "columns ex_bronze = [''fixture.id'', ''Fixture.Status'', ''goals.home'']"
    by (simp add: ex_bronze_def columns_def)
  have std: "map (\<lambda>c. replace_char (CHR ''.'') (CHR ''_'') (lower c)) (columns ex_bronze) =
      [''fixture_id'', ''fixture_status'', ''goals_home'']"
    by (simp add: c standard_fixture_status standard_goals_home)
       (simp add: replace_char_def lower_def char_lower_def)
  have a: "columns (standardize_column_names ex_bronze) =
      [''fixture_id'', ''fixture_status'', ''goals_home'']"
    using inst std by simp
  have b: "list_all (\<lambda>c. list_all (\<lambda>ch. ch \<noteq> CHR ''.'') c)
      (columns (standardize_column_names ex_bronze))"
    using inst by (simp add: list_all_iff)
  have d: "columns (transform_data (\<lambda>u :: unit. ex_bronze) ()) =
     [''fixture_id'', ''Fixture.Status'', ''goals.home'']"
    using inst by (simp add: c)
  have e: "columns (standardize_column_names (transform_data (\<lambda>u :: unit. ex_bronze) ())) =
     [''fixture_id'', ''fixture_status'', ''goals_home'']"
    using inst by (simp add: c standard_fixture_status standard_goals_home)
  show ?thesis using a b d e by blast
qed

section \<open>A response without the expected field\<close>

text \<open>
  Claim C7. \<^verbatim>\<open>get_data\<close> returns \<^verbatim>\<open>None\<close> for a body that is not JSON, but for a
  JSON object without the data field the lookup raises \<^verbatim>\<open>KeyError\<close>, which neither
  \<^verbatim>\<open>except\<close> clause catches: the call raises instead of returning \<^verbatim>\<open>None\<close>.
\<close>

theorem get_data_missing_field_raises:
  "get_data ex_http_not_json ''https://v3.football.api-sports.io'' ''fixtures''
     (Some ''response'') = Inr JNull \<and>
   get_data ex_http_no_field ''https://v3.football.api-sports.io'' ''fixtures''
     (Some ''response'') = Inl KeyError"
  by (simp add: get_data_def requests_get_def raise_for_status_def response_json_def
      ex_http_not_json_def ex_http_no_field_def thenE_def truthy_def is_ValueError_def
      is_RequestException_def)

lemma to_datetime_cell_cases:
  assumes "to_datetime_cell u x = Inr w"
  shows "(x = NA \<and> w = NA) \<or> (x \<noteq> NA \<and> (\<exists>t z. w = Ts t z))"
  using assms
  by (cases u; cases x)
     (auto simp: timestamp_def split: if_splits option.splits prod.splits)

lemma floor_utc_cell:
  assumes w: "to_datetime_cell u x = Inr w" and f: "floor_min_cell (to_utc w) = Inr y"
  shows "if x = NA then y = NA
         else \<exists>t z. to_datetime_cell u x = Inr (Ts t z) \<and>
                y = Ts (t - t mod ns_per_minute) (Offset 0)"
proof -
  from to_datetime_cell_cases [OF w] show ?thesis
  proof
    assume "x = NA \<and> w = NA"
    then show ?thesis using f by (simp add: to_utc_def)
  next
    assume a: "x \<noteq> NA \<and> (\<exists>t z. w = Ts t z)"
    then obtain t z where wt: "w = Ts t z" by blast
    then have "y = Ts (t - t mod ns_per_minute) (Offset 0)"
      using f by (simp add: to_utc_def tz_offset_def Let_def)
    then show ?thesis using a w wt by auto
  qed
qed

lemma floor_utc_column:
  assumes t: "to_datetime u True xs = Inr ts" and f: "dt_floor_min ts = Inr ys"
  shows "length ys = length xs \<and>
     (\<forall>i < length xs. if xs ! i = NA then ys ! i = NA
        else \<exists>t z. to_datetime_cell u (xs ! i) = Inr (Ts t z) \<and>
               ys ! i = Ts (t - t mod ns_per_minute) (Offset 0))"
proof -
  from t obtain ws where ws: "map_err (to_datetime_cell u) xs = Inr ws" and ts: "ts = map to_utc ws"
    by (auto simp: to_datetime_def thenE_Inr)
  have lw: "length ws = length xs" and cw: "\<forall>i < length xs. to_datetime_cell u (xs ! i) = Inr (ws ! i)"
    using ws by (simp_all add: map_err_Inr_iff)
  have ly: "length ys = length ts" and cy: "\<forall>i < length ts. floor_min_cell (ts ! i) = Inr (ys ! i)"
    using f by (simp_all add: dt_floor_min_def map_err_Inr_iff)
  have "if xs ! i = NA then ys ! i = NA
        else \<exists>t z. to_datetime_cell u (xs ! i) = Inr (Ts t z) \<and>
               ys ! i = Ts (t - t mod ns_per_minute) (Offset 0)" if i: "i < length xs" for i
  proof -
    have a: "to_datetime_cell u (xs ! i) = Inr (ws ! i)" using cw i by simp
    have b: "floor_min_cell (to_utc (ws ! i)) = Inr (ys ! i)"
      using cy i lw ts by simp
    show ?thesis using floor_utc_cell [OF a b] .
  qed
  then have "\<forall>i < length xs. if xs ! i = NA then ys ! i = NA
        else \<exists>t z. to_datetime_cell u (xs ! i) = Inr (Ts t z) \<and>
               ys ! i = Ts (t - t mod ns_per_minute) (Offset 0)"
    by blast
  moreover have "length ys = length xs" using ly lw ts by simp
  ultimately show ?thesis by blast
qed

lemma format_datetime_columns_steps:
  "format_datetime_columns df =
     thenE (floor_step ''fixture_date'' NoUnit df) (\<lambda>df1.
     thenE (floor_step ''fixture_periods_first'' Seconds df1) (\<lambda>df2.
     floor_step ''fixture_periods_second'' Seconds df2))"
  unfolding format_datetime_columns_def floor_step_def ..

lemma floor_step_result:
  assumes "floor_step c u df = Inr df'"
  shows "(\<forall>k. k \<noteq> c \<longrightarrow> map_of df' k = map_of df k) \<and>
     (\<forall>xs. map_of df c = Some xs \<longrightarrow>
        (\<exists>ys. map_of df' c = Some ys \<and> length ys = length xs \<and>
           (\<forall>i < length xs. if xs ! i = NA then ys ! i = NA
              else \<exists>t z. to_datetime_cell u (xs ! i) = Inr (Ts t z) \<and>
                     ys ! i = Ts (t - t mod ns_per_minute) (Offset 0))))"
proof (cases "c \<in> set (columns df)")
  case False
  then have "df' = df" "map_of df c = None"
    using assms by (simp_all add: floor_step_def in_columns_iff)
  then show ?thesis by simp
next
  case True
  with assms obtain xs ts ys where xs: "getitem df c = Inr xs"
    and ts: "to_datetime u True xs = Inr ts" and ys: "dt_floor_min ts = Inr ys"
    and df': "df' = setitem c ys df"
    by (auto simp: floor_step_def thenE_Inr)
  have m: "map_of df c = Some xs" using xs by (simp add: getitem_Inr_iff)
  show ?thesis
    using floor_utc_column [OF ts ys] m by (auto simp: df' map_of_setitem)
qed

lemma epoch_second_floor:
  "n * ns_per_second - (n * ns_per_second) mod ns_per_minute = (n - n mod 60) * ns_per_second"
proof -
  have "(n * 1000000000) mod (60 * 1000000000) = (n mod 60) * (1000000000 :: int)"
    by (rule mod_mult_mult2)
  then show ?thesis
    by (simp add: ns_per_minute_def ns_per_second_def algebra_simps)
qed

lemma iso_example:
  "to_datetime_cell NoUnit (Str ''2024-05-01T12:34:56Z'') = Inr (Ts 1714566896000000000 (Offset 0))"
  "to_datetime_cell NoUnit (Str ''2024-05-01T12:34:00Z'') = Inr (Ts 1714566840000000000 (Offset 0))"
  by code_simp+

lemma iso_example_floor:
  "format_datetime_columns [(''fixture_date'', [Str ''2024-05-01T12:34:56Z''])] =
     Inr [(''fixture_date'', [Ts 1714566840000000000 (Offset 0)])]"
  by code_simp

section \<open>Timestamps floored to the minute\<close>

text \<open>
  Claim C5. When \<^verbatim>\<open>format_datetime_columns\<close> returns, each of the columns
  \<^verbatim>\<open>fixture_date\<close>, \<^verbatim>\<open>fixture_periods_first\<close> and \<^verbatim>\<open>fixture_periods_second\<close> that
  the frame has holds, row by row, a missing value where the input was missing and
  otherwise the UTC timestamp of the input (a parsed string for \<^verbatim>\<open>fixture_date\<close>,
  epoch seconds for the two periods) floored to the minute: a number \<open>n\<close> of epoch
  seconds becomes the instant of \<open>n - n mod 60\<close> seconds. The string
  \<^verbatim>\<open>2024-05-01T12:34:56Z\<close> becomes the timestamp of \<^verbatim>\<open>2024-05-01T12:34:00Z\<close>.
\<close>

theorem format_datetime_floors:
  assumes "format_datetime_columns df = Inr df'"
  shows "(\<forall>xs. map_of df ''fixture_date'' = Some xs \<longrightarrow>
        (\<exists>ys. map_of df' ''fixture_date'' = Some ys \<and> length ys = length xs \<and>
           (\<forall>i < length xs. if xs ! i = NA then ys ! i = NA
              else \<exists>t z. to_datetime_cell NoUnit (xs ! i) = Inr (Ts t z) \<and>
                     ys ! i = Ts (t - t mod ns_per_minute) (Offset 0)))) \<and>
     (\<forall>c \<in> {''fixture_periods_first'', ''fixture_periods_second''}.
        \<forall>xs. map_of df c = Some xs \<longrightarrow>
        (\<exists>ys. map_of df' c = Some ys \<and> length ys = length xs \<and>
           (\<forall>i < length xs.
              (if xs ! i = NA then ys ! i = NA
               else \<exists>t z. to_datetime_cell Seconds (xs ! i) = Inr (Ts t z) \<and>
                      ys ! i = Ts (t - t mod ns_per_minute) (Offset 0)) \<and>
              (\<forall>n. xs ! i = Num n \<longrightarrow>
                 ys ! i = Ts ((n - n mod 60) * ns_per_second) (Offset 0))))) \<and>
     format_datetime_columns [(''fixture_date'', [Str ''2024-05-01T12:34:56Z''])] =
       Inr [(''fixture_date'', [Ts 1714566840000000000 (Offset 0)])] \<and>
     to_datetime_cell NoUnit (Str ''2024-05-01T12:34:00Z'') =
       Inr (Ts 1714566840000000000 (Offset 0))"
proof -
  define P where "P u x y = (if x = NA then y = NA
      else \<exists>t z. to_datetime_cell u x = Inr (Ts t z) \<and>
             y = Ts (t - t mod ns_per_minute) (Offset 0))" for u x y
  define Q where "Q x y = (\<forall>n. x = Num n \<longrightarrow> y = Ts ((n - n mod 60) * ns_per_second) (Offset 0))"
    for x y
  have step: "\<And>xs. map_of d c = Some xs \<Longrightarrow>
       \<exists>ys. map_of d' c = Some ys \<and> length ys = length xs \<and>
         (\<forall>i < length xs. P u (xs ! i) (ys ! i))"
       "\<And>k. k \<noteq> c \<Longrightarrow> map_of d' k = map_of d k"
    if "floor_step c u d = Inr d'" for c u d d'
    using floor_step_result [OF that] unfolding P_def by blast+
  have secs: "Q x y" if "P Seconds x y" for x y
    using that unfolding P_def Q_def
    by (auto simp: timestamp_def epoch_second_floor split: if_splits)
  from assms obtain df1 df2 where
    s1: "floor_step ''fixture_date'' NoUnit df = Inr df1" and
    s2: "floor_step ''fixture_periods_first'' Seconds df1 = Inr df2" and
    s3: "floor_step ''fixture_periods_second'' Seconds df2 = Inr df'"
    by (auto simp: format_datetime_columns_steps thenE_Inr)
  have same1: "map_of df' ''fixture_date'' = map_of df1 ''fixture_date''"
    using step(2) [OF s2, of "''fixture_date''"] step(2) [OF s3, of "''fixture_date''"] by simp
  have same2: "map_of df1 ''fixture_periods_first'' = map_of df ''fixture_periods_first''"
    "map_of df' ''fixture_periods_first'' = map_of df2 ''fixture_periods_first''"
    using step(2) [OF s1, of "''fixture_periods_first''"]
      step(2) [OF s3, of "''fixture_periods_first''"] by simp_all
  have same3: "map_of df2 ''fixture_periods_second'' = map_of df ''fixture_periods_second''"
    using step(2) [OF s1, of "''fixture_periods_second''"]
      step(2) [OF s2, of "''fixture_periods_second''"] by simp
  have a: "\<exists>ys. map_of df' ''fixture_date'' = Some ys \<and> length ys = length xs \<and>
           (\<forall>i < length xs. P NoUnit (xs ! i) (ys ! i))"
    if "map_of df ''fixture_date'' = Some xs" for xs
    using step(1) [OF s1 that] by (simp add: same1)
  have b1: "\<exists>ys. map_of df' ''fixture_periods_first'' = Some ys \<and> length ys = length xs \<and>
           (\<forall>i < length xs. P Seconds (xs ! i) (ys ! i) \<and> Q (xs ! i) (ys ! i))"
    if "map_of df ''fixture_periods_first'' = Some xs" for xs
  proof -
    have "map_of df1 ''fixture_periods_first'' = Some xs" using that by (simp add: same2)
    from step(1) [OF s2 this] obtain ys where
      "map_of df2 ''fixture_periods_first'' = Some ys" "length ys = length xs"
      "\<forall>i < length xs. P Seconds (xs ! i) (ys ! i)" by blast
    then show ?thesis using secs by (auto simp: same2)
  qed
  have b2: "\<exists>ys. map_of df' ''fixture_periods_second'' = Some ys \<and> length ys = length xs \<and>
           (\<forall>i < length xs. P Seconds (xs ! i) (ys ! i) \<and> Q (xs ! i) (ys ! i))"
    if "map_of df ''fixture_periods_second'' = Some xs" for xs
  proof -
    have "map_of df2 ''fixture_periods_second'' = Some xs" using that by (simp add: same3)
    from step(1) [OF s3 this] obtain ys where
      "map_of df' ''fixture_periods_second'' = Some ys" "length ys = length xs"
      "\<forall>i < length xs. P Seconds (xs ! i) (ys ! i)" by blast
    then show ?thesis using secs by auto
  qed
  have "(\<forall>xs. map_of df ''fixture_date'' = Some xs \<longrightarrow>
        (\<exists>ys. map_of df' ''fixture_date'' = Some ys \<and> length ys = length xs \<and>
           (\<forall>i < length xs. P NoUnit (xs ! i) (ys ! i)))) \<and>
     (\<forall>c \<in> {''fixture_periods_first'', ''fixture_periods_second''}.
        \<forall>xs. map_of df c = Some xs \<longrightarrow>
        (\<exists>ys. map_of df' c = Some ys \<and> length ys = length xs \<and>
           (\<forall>i < length xs. P Seconds (xs ! i) (ys ! i) \<and> Q (xs ! i) (ys ! i))))"
    using a b1 b2 by blast
  then show ?thesis
    unfolding P_def Q_def using iso_example(2) iso_example_floor by simp
qed

theorem format_datetime_floors_witness:
  "format_datetime_columns ex_times = Inr ex_times_floored \<and>
   map_of ex_times ''fixture_periods_first'' = Some [Num 1714566896, NA] \<and>
   (\<exists>ys. map_of ex_times_floored ''fixture_periods_first'' = Some ys \<and>
      ys ! 0 = Ts ((1714566896 - 1714566896 mod 60) * ns_per_second) (Offset 0) \<and>
      ys ! 1 = NA)"
proof -
  have run: "format_datetime_columns ex_times = Inr ex_times_floored"
    by code_simp
  have m: "map_of ex_times ''fixture_periods_first'' = Some [Num 1714566896, NA]"
    by (simp add: ex_times_def)
  from format_datetime_floors [OF run] m obtain ys where
    ys: "map_of ex_times_floored ''fixture_periods_first'' = Some ys"
    and rows: "\<forall>i < length [Num 1714566896, NA].
              (if [Num 1714566896, NA] ! i = NA then ys ! i = NA
               else \<exists>t z. to_datetime_cell Seconds ([Num 1714566896, NA] ! i) = Inr (Ts t z) \<and>
                      ys ! i = Ts (t - t mod ns_per_minute) (Offset 0)) \<and>
              (\<forall>n. [Num 1714566896, NA] ! i = Num n \<longrightarrow>
                 ys ! i = Ts ((n - n mod 60) * ns_per_second) (Offset 0))"
    by blast
  have "ys ! 0 = Ts ((1714566896 - 1714566896 mod 60) * ns_per_second) (Offset 0)"
    using rows [rule_format, of 0] by simp
  moreover have "ys ! 1 = NA"
    using rows [rule_format, of 1] by simp
  ultimately show ?thesis using run m ys by blast
qed

lemma getitem_setitem: "getitem (setitem c xs df) c = Inr xs"
  by (simp add: getitem_def map_of_setitem)

lemma event_date_from_Inr:
  assumes "event_date_from c df = Inr df'"
  shows "\<exists>xs ts ds. map_of df c = Some xs \<and> to_datetime NoUnit False xs = Inr ts \<and>
           dt_date ts = Inr ds \<and> df' = setitem ''event_date'' ds (setitem c ts df)"
proof -
  from assms obtain xs ts where xs: "getitem df c = Inr xs"
    and ts: "to_datetime NoUnit False xs = Inr ts"
    and rest: "thenE (getitem (setitem c ts df) c) (\<lambda>ts'.
                 thenE (dt_date ts') (\<lambda>ds. Inr (setitem ''event_date'' ds (setitem c ts df)))) =
               Inr df'"
    unfolding event_date_from_def Let_def thenE_Inr [where y = df'] by blast
  from rest obtain ds where "dt_date ts = Inr ds" "df' = setitem ''event_date'' ds (setitem c ts df)"
    by (auto simp: getitem_setitem thenE_Inr)
  with xs ts show ?thesis by (auto simp: getitem_Inr_iff)
qed

lemma event_date_from_parse_error:
  assumes "map_of df c = Some xs" "to_datetime NoUnit False xs = Inl e"
  shows "event_date_from c df = Inl e"
  using assms by (simp add: event_date_from_def getitem_def thenE_def)

section \<open>The event date comes from the API's column first\<close>

text \<open>
  Claim C10. When the frame has \<^verbatim>\<open>fixture.date\<close>, whether or not it also has
  \<^verbatim>\<open>fixture_date\<close>, \<^verbatim>\<open>add_event_date_from_fixture_date\<close> parses
  \<^verbatim>\<open>fixture.date\<close> and takes \<^verbatim>\<open>event_date\<close> from it; the column
  \<^verbatim>\<open>fixture_date\<close> is left as it was, and is not tried when \<^verbatim>\<open>fixture.date\<close>
  cannot be parsed. Only a frame without \<^verbatim>\<open>fixture.date\<close> has its
  \<^verbatim>\<open>fixture_date\<close> parsed and used.
\<close>

theorem event_date_prefers_api_name:
  "(''fixture.date'' \<in> set (columns df) \<and> add_event_date_from_fixture_date df = Inr df' \<longrightarrow>
      map_of df' ''fixture_date'' = map_of df ''fixture_date'' \<and>
      (\<exists>xs ts ds. map_of df ''fixture.date'' = Some xs \<and>
         to_datetime NoUnit False xs = Inr ts \<and> dt_date ts = Inr ds \<and>
         map_of df' ''fixture.date'' = Some ts \<and> map_of df' ''event_date'' = Some ds)) \<and>
   (map_of df ''fixture.date'' = Some xs0 \<and> to_datetime NoUnit False xs0 = Inl e \<longrightarrow>
      add_event_date_from_fixture_date df = Inl e) \<and>
   (''fixture.date'' \<notin> set (columns df) \<and> ''fixture_date'' \<in> set (columns df) \<and>
    add_event_date_from_fixture_date df = Inr df' \<longrightarrow>
      (\<exists>xs ts ds. map_of df ''fixture_date'' = Some xs \<and>
         to_datetime NoUnit False xs = Inr ts \<and> dt_date ts = Inr ds \<and>
         map_of df' ''fixture_date'' = Some ts \<and> map_of df' ''event_date'' = Some ds))"
proof (intro conjI impI)
  assume a: "''fixture.date'' \<in> set (columns df) \<and> add_event_date_from_fixture_date df = Inr df'"
  then have "event_date_from ''fixture.date'' df = Inr df'"
    by (auto simp: add_event_date_from_fixture_date_def)
  from event_date_from_Inr [OF this] obtain xs ts ds where
    r: "map_of df ''fixture.date'' = Some xs" "to_datetime NoUnit False xs = Inr ts"
      "dt_date ts = Inr ds" "df' = setitem ''event_date'' ds (setitem ''fixture.date'' ts df)"
    by blast
  show "map_of df' ''fixture_date'' = map_of df ''fixture_date''"
    by (simp add: r(4) map_of_setitem)
  have "map_of df' ''fixture.date'' = Some ts" "map_of df' ''event_date'' = Some ds"
    by (simp_all add: r(4) map_of_setitem)
  with r show "\<exists>xs ts ds. map_of df ''fixture.date'' = Some xs \<and>
         to_datetime NoUnit False xs = Inr ts \<and> dt_date ts = Inr ds \<and>
         map_of df' ''fixture.date'' = Some ts \<and> map_of df' ''event_date'' = Some ds"
    by blast
next
  assume a: "map_of df ''fixture.date'' = Some xs0 \<and> to_datetime NoUnit False xs0 = Inl e"
  then have "''fixture.date'' \<in> set (columns df)" by (simp add: in_columns_iff)
  then show "add_event_date_from_fixture_date df = Inl e"
    using a by (simp add: add_event_date_from_fixture_date_def event_date_from_parse_error)
next
  assume a: "''fixture.date'' \<notin> set (columns df) \<and> ''fixture_date'' \<in> set (columns df) \<and>
    add_event_date_from_fixture_date df = Inr df'"
  then have "event_date_from ''fixture_date'' df = Inr df'"
    by (auto simp: add_event_date_from_fixture_date_def)
  from event_date_from_Inr [OF this] obtain xs ts ds where
    r: "map_of df ''fixture_date'' = Some xs" "to_datetime NoUnit False xs = Inr ts"
      "dt_date ts = Inr ds" "df' = setitem ''event_date'' ds (setitem ''fixture_date'' ts df)"
    by blast
  have "map_of df' ''fixture_date'' = Some ts" "map_of df' ''event_date'' = Some ds"
    by (simp_all add: r(4) map_of_setitem)
  with r show "\<exists>xs ts ds. map_of df ''fixture_date'' = Some xs \<and>
         to_datetime NoUnit False xs = Inr ts \<and> dt_date ts = Inr ds \<and>
         map_of df' ''fixture_date'' = Some ts \<and> map_of df' ''event_date'' = Some ds"
    by blast
qed

theorem event_date_prefers_api_name_witness:
  "''fixture.date'' \<in> set (columns ex_both_dates) \<and>
   ''fixture_date'' \<in> set (columns ex_both_dates) \<and>
   add_event_date_from_fixture_date ex_both_dates = Inr ex_both_dates_result \<and>
   map_of ex_both_dates_result ''fixture_date'' = Some [Str ''not a date''] \<and>
   (\<exists>xs ts ds. map_of ex_both_dates ''fixture.date'' = Some xs \<and>
      to_datetime NoUnit False xs = Inr ts \<and> dt_date ts = Inr ds \<and>
      map_of ex_both_dates_result ''event_date'' = Some ds)"
proof -
  have c: "''fixture.date'' \<in> set (columns ex_both_dates)"
    "''fixture_date'' \<in> set (columns ex_both_dates)"
    by (simp_all add: ex_both_dates_def columns_def)
  have run: "add_event_date_from_fixture_date ex_both_dates = Inr ex_both_dates_result"
    by code_simp
  have m: "map_of ex_both_dates ''fixture_date'' = Some [Str ''not a date'']"
    by (simp add: ex_both_dates_def)
  note inst = event_date_prefers_api_name [of ex_both_dates ex_both_dates_result]
  have k: "map_of ex_both_dates_result ''fixture_date'' = Some [Str ''not a date'']"
    using inst c(1) run m by simp
  have "\<exists>xs ts ds. map_of ex_both_dates ''fixture.date'' = Some xs \<and>
      to_datetime NoUnit False xs = Inr ts \<and> dt_date ts = Inr ds \<and>
      map_of ex_both_dates_result ''fixture.date'' = Some ts \<and>
      map_of ex_both_dates_result ''event_date'' = Some ds"
    using inst c(1) run by blast
  then have "\<exists>xs ts ds. map_of ex_both_dates ''fixture.date'' = Some xs \<and>
      to_datetime NoUnit False xs = Inr ts \<and> dt_date ts = Inr ds \<and>
      map_of ex_both_dates_result ''event_date'' = Some ds"
    by blast
  then show ?thesis using c run k by blast
qed

lemma select_rows_filter: "select_rows (map P xs) xs = filter P xs"
  unfolding select_rows_def by (induction xs) auto

lemma map_of_select_df:
  "map_of (select_df keep df) c = map_option (select_rows keep) (map_of df c)"
  unfolding select_df_def by (induction df) auto

lemma yesterday_day: "(now - 86400) div 86400 = now div 86400 - (1 :: int)"
proof -
  have "(now + (- 1) * 86400) div 86400 = - 1 + now div (86400 :: int)"
    by (rule div_mult_self1) simp
  then show ?thesis by simp
qed

section \<open>Reading yesterday's partition\<close>

text \<open>
  Claim C6, as stated, fails on a table that is not partitioned by \<^verbatim>\<open>event_date\<close>:
  the filter then leaves nothing out, and the rows of other days are returned too.
\<close>

theorem unpartitioned_read_counterexample:
  "read_most_recent_partition ex_now ''bronze/fixtures'' cx_unpartitioned_lake =
     Inr [(''fixture_id'', [Num 100, Num 90, Num 101]),
          (''event_date'', [Date 19844, Date 19843, Date 19844])] \<and>
   strftime_ymd (ex_now div 86400 - 1) = ''2024-05-01'' \<and>
   partition_text (Date 19843) = Some ''2024-04-30''"
proof -
  have "strftime_ymd (ex_now div 86400 - 1) = ''2024-05-01''"
    by code_simp
  moreover have "partition_text (Date 19843) = Some ''2024-04-30''"
    by code_simp
  moreover have "read_most_recent_partition ex_now ''bronze/fixtures'' cx_unpartitioned_lake =
     Inr [(''fixture_id'', [Num 100, Num 90, Num 101]),
          (''event_date'', [Date 19844, Date 19843, Date 19844])]"
    by (simp add: read_most_recent_partition_def DeltaTable_def thenE_def
        to_pandas_partition_def cx_unpartitioned_lake_def cx_unpartitioned_def
        ex_bronze_table_def)
  ultimately show ?thesis by blast
qed

text \<open>
  Claim C6, amended. On a table partitioned by \<^verbatim>\<open>event_date\<close>, the assumption the
  docstring states, \<^verbatim>\<open>read_most_recent_partition\<close> called when the UTC clock shows day
  \<open>D\<close> (\<open>now div 86400\<close> days after the epoch) returns the rows of the table whose
  \<^verbatim>\<open>event_date\<close> is the day \<open>D - 1\<close> written \<^verbatim>\<open>YYYY-MM-DD\<close>, and only those:
  every column is cut down to the rows where \<^verbatim>\<open>event_date\<close> has that text. When there
  is no table at the path it raises, and whatever fails inside is raised again as an
  \<^verbatim>\<open>Exception\<close>: no failure gives an empty frame.
\<close>

theorem read_most_recent_partition_yesterday:
  "(st path = None \<longrightarrow>
      read_most_recent_partition now path st = Inl (Exception TableNotFoundError)) \<and>
   (read_most_recent_partition now path st = Inl e \<longrightarrow> (\<exists>e'. e = Exception e')) \<and>
   (st path = Some t \<and> ''event_date'' \<in> set (partition_by t) \<and>
    map_of (data t) ''event_date'' = Some vs \<longrightarrow>
      (\<exists>df. read_most_recent_partition now path st = Inr df \<and>
         df = select_df
                (map (\<lambda>v. partition_text v = Some (strftime_ymd (now div 86400 - 1))) vs)
                (data t) \<and>
         map_of df ''event_date'' =
           Some (filter (\<lambda>v. partition_text v = Some (strftime_ymd (now div 86400 - 1))) vs) \<and>
         (\<forall>c xs. map_of (data t) c = Some xs \<longrightarrow>
            map_of df c =
              Some (select_rows
                (map (\<lambda>v. partition_text v = Some (strftime_ymd (now div 86400 - 1))) vs) xs))))"
proof (intro conjI impI)
  assume "st path = None"
  then show "read_most_recent_partition now path st = Inl (Exception TableNotFoundError)"
    by (simp add: read_most_recent_partition_def DeltaTable_def thenE_def)
next
  assume "read_most_recent_partition now path st = Inl e"
  then show "\<exists>e'. e = Exception e'"
    by (auto simp: read_most_recent_partition_def Let_def split: sum.splits)
next
  assume a: "st path = Some t \<and> ''event_date'' \<in> set (partition_by t) \<and>
    map_of (data t) ''event_date'' = Some vs"
  let ?day = "strftime_ymd (now div 86400 - 1)"
  let ?df = "select_df (map (\<lambda>v. partition_text v = Some ?day) vs) (data t)"
  have run: "read_most_recent_partition now path st = Inr ?df"
    using a
    by (simp add: read_most_recent_partition_def DeltaTable_def thenE_def
        to_pandas_partition_def yesterday_day)
  have ev: "map_of ?df ''event_date'' = Some (filter (\<lambda>v. partition_text v = Some ?day) vs)"
    using a by (simp add: map_of_select_df select_rows_filter)
  have all: "\<forall>c xs. map_of (data t) c = Some xs \<longrightarrow>
      map_of ?df c = Some (select_rows (map (\<lambda>v. partition_text v = Some ?day) vs) xs)"
    by (simp add: map_of_select_df)
  show "\<exists>df. read_most_recent_partition now path st = Inr df \<and>
         df = ?df \<and>
         map_of df ''event_date'' = Some (filter (\<lambda>v. partition_text v = Some ?day) vs) \<and>
         (\<forall>c xs. map_of (data t) c = Some xs \<longrightarrow>
            map_of df c = Some (select_rows (map (\<lambda>v. partition_text v = Some ?day) vs) xs))"
    using run ev all by blast
qed

theorem read_most_recent_partition_yesterday_witness:
  "ex_lake ''silver/fixtures'' = None \<and>
   read_most_recent_partition ex_now ''silver/fixtures'' ex_lake =
     Inl (Exception TableNotFoundError) \<and>
   strftime_ymd (ex_now div 86400 - 1) = ''2024-05-01'' \<and>
   ex_lake ''bronze/fixtures'' = Some ex_bronze_table \<and>
   ''event_date'' \<in> set (partition_by ex_bronze_table) \<and>
   map_of (data ex_bronze_table) ''event_date'' = Some [Date 19844, Date 19843, Date 19844] \<and>
   read_most_recent_partition ex_now ''bronze/fixtures'' ex_lake =
     Inr [(''fixture_id'', [Num 100, Num 101]), (''event_date'', [Date 19844, Date 19844])]"
proof -
  let ?vs = "[Date 19844, Date 19843, Date 19844]"
  have none: "ex_lake ''silver/fixtures'' = None"
    by (simp add: ex_lake_def)
  have some: "ex_lake ''bronze/fixtures'' = Some ex_bronze_table"
    by (simp add: ex_lake_def)
  have part: "''event_date'' \<in> set (partition_by ex_bronze_table)"
    by (simp add: ex_bronze_table_def)
  have vs: "map_of (data ex_bronze_table) ''event_date'' = Some ?vs"
    by (simp add: ex_bronze_table_def)
  have day: "strftime_ymd (ex_now div 86400 - 1) = ''2024-05-01''"
    by code_simp
  have d1: "strftime_ymd 19844 = ''2024-05-01''" and d2: "strftime_ymd 19843 = ''2024-04-30''"
    by code_simp+
  have sel: "select_df (map (\<lambda>v. partition_text v = Some ''2024-05-01'') ?vs)
               (data ex_bronze_table) =
             [(''fixture_id'', [Num 100, Num 101]), (''event_date'', [Date 19844, Date 19844])]"
    by (simp add: ex_bronze_table_def partition_text_def d1 d2 select_df_def select_rows_def)
  note inst1 = read_most_recent_partition_yesterday [of ex_lake "''silver/fixtures''" ex_now]
  note inst2 = read_most_recent_partition_yesterday
    [of ex_lake "''bronze/fixtures''" ex_now _ ex_bronze_table ?vs]
  have r1: "read_most_recent_partition ex_now ''silver/fixtures'' ex_lake =
     Inl (Exception TableNotFoundError)"
    using inst1 none by blast
  have "read_most_recent_partition ex_now ''bronze/fixtures'' ex_lake =
     Inr (select_df (map (\<lambda>v. partition_text v = Some (strftime_ymd (ex_now div 86400 - 1))) ?vs)
            (data ex_bronze_table))"
    using inst2 some part vs by blast
  then have r2: "read_most_recent_partition ex_now ''bronze/fixtures'' ex_lake =
     Inr [(''fixture_id'', [Num 100, Num 101]), (''event_date'', [Date 19844, Date 19844])]"
    by (simp only: day sel)
  show ?thesis using none r1 day some part vs r2 by blast
qed

lemma map_err_cong:
  "(\<And>x. x \<in> set xs \<Longrightarrow> f x = g x) \<Longrightarrow> map_err f xs = map_err g xs"
  by (induction xs) (auto split: sum.splits)

lemma map_of_filter_keys:
  "map_of (filter (\<lambda>(k, v). k \<in> S) d) k = (if k \<in> S then map_of d k else None)"
  by (induction d) auto

lemma astype_column_label: "astype_column astype d p = Inr q \<Longrightarrow> fst q = fst p"
  by (cases p) (auto simp: astype_column_def thenE_Inr split: option.splits)

lemma map_err_labels:
  assumes "map_err (astype_column astype d) df = Inr df1"
  shows "columns df1 = columns df"
proof -
  have l: "length df1 = length df"
    and e: "\<forall>i < length df. astype_column astype d (df ! i) = Inr (df1 ! i)"
    using assms by (simp_all add: map_err_Inr_iff)
  have "map fst df1 = map fst df"
  proof (rule nth_equalityI)
    show "length (map fst df1) = length (map fst df)" using l by simp
  next
    fix i assume "i < length (map fst df1)"
    then have i: "i < length df" using l by simp
    then have "fst (df1 ! i) = fst (df ! i)"
      using e astype_column_label by blast
    then show "map fst df1 ! i = map fst df ! i" using i l by simp
  qed
  then show ?thesis by (simp add: columns_def)
qed

text \<open>A cast through the dictionary of the columns present is a pass of the whole
  dictionary over the columns.\<close>

lemma df_astype_present:
  assumes "columns df1 = columns df"
  shows "(let ex = filter (\<lambda>(k, v). k \<in> set (columns df)) d
          in if ex \<noteq> [] then df_astype astype ex df1 else Inr df1) =
         map_err (astype_column astype d) df1"
proof -
  define ex where "ex = filter (\<lambda>(k, v). k \<in> set (columns df)) d"
  have keys: "list_all (\<lambda>(k, t). k \<in> set (columns df1)) ex"
    unfolding ex_def assms by (auto simp: list_all_iff)
  have same: "astype_column astype ex p = astype_column astype d p" if "p \<in> set df1" for p
  proof -
    obtain k xs where p: "p = (k, xs)" by (cases p)
    have "k \<in> set (columns df)" using that p assms [symmetric] by (force simp: columns_def)
    then have "map_of ex k = map_of d k" by (simp add: ex_def map_of_filter_keys)
    then show ?thesis by (simp add: astype_column_def p)
  qed
  have "map_err (astype_column astype ex) df1 = map_err (astype_column astype d) df1"
    by (rule map_err_cong) (rule same)
  then have pass: "df_astype astype ex df1 = map_err (astype_column astype d) df1"
    using keys by (simp add: df_astype_def)
  have "df_astype astype ex df1 = Inr df1" if "ex = []"
    using that by (simp add: df_astype_Nil)
  then show ?thesis
    unfolding ex_def [symmetric] Let_def using pass by (cases "ex = []") simp_all
qed

lemma cast_column_types_passes:
  "cast_column_types astype df =
     thenE (map_err (astype_column astype type_mapping_numeric) df)
       (map_err (astype_column astype type_mapping_string))"
proof -
  have n: "(let ex = filter (\<lambda>(k, v). k \<in> set (columns df)) type_mapping_numeric
          in if ex \<noteq> [] then df_astype astype ex df else Inr df) =
         map_err (astype_column astype type_mapping_numeric) df"
    by (rule df_astype_present) simp
  have s: "(let ex = filter (\<lambda>(k, v). k \<in> set (columns df)) type_mapping_string
          in if ex \<noteq> [] then df_astype astype ex df1 else Inr df1) =
         map_err (astype_column astype type_mapping_string) df1"
    if "map_err (astype_column astype type_mapping_numeric) df = Inr df1" for df1
    by (rule df_astype_present) (rule map_err_labels [OF that])
  show ?thesis
  proof (cases "map_err (astype_column astype type_mapping_numeric) df")
    case (Inl e)
    then show ?thesis
      using n unfolding cast_column_types_def Let_def by (simp add: thenE_def)
  next
    case (Inr df1)
    then show ?thesis
      using n s [OF Inr] unfolding cast_column_types_def Let_def by (simp add: thenE_def)
  qed
qed

lemma type_mappings_disjoint:
  "map_of type_mapping_numeric k = None \<or> map_of type_mapping_string k = None"
  by (simp add: type_mapping_numeric_def type_mapping_string_def)

lemma astype_column_twice:
  assumes idem: "\<forall>t xs ys. astype t xs = Inr ys \<longrightarrow> astype t ys = Inr ys"
    and n: "astype_column astype type_mapping_numeric p = Inr q"
    and s: "astype_column astype type_mapping_string q = Inr r"
  shows "astype_column astype type_mapping_numeric r = Inr r \<and>
         astype_column astype type_mapping_string r = Inr r"
proof -
  obtain k xs where p: "p = (k, xs)" by (cases p)
  from type_mappings_disjoint [of k] show ?thesis
  proof
    assume nn: "map_of type_mapping_numeric k = None"
    then have q: "q = (k, xs)" using n by (simp add: astype_column_def p)
    show ?thesis
    proof (cases "map_of type_mapping_string k")
      case None
      then have "r = (k, xs)" using s by (simp add: astype_column_def q)
      then show ?thesis using None nn by (simp add: astype_column_def)
    next
      case (Some t)
      then obtain zs where "astype t xs = Inr zs" "r = (k, zs)"
        using s by (auto simp: astype_column_def q thenE_Inr)
      moreover from this idem have "astype t zs = Inr zs" by blast
      ultimately show ?thesis using nn Some by (simp add: astype_column_def thenE_def)
    qed
  next
    assume sn: "map_of type_mapping_string k = None"
    show ?thesis
    proof (cases "map_of type_mapping_numeric k")
      case None
      then have "q = (k, xs)" using n by (simp add: astype_column_def p)
      then have "r = (k, xs)" using s sn by (simp add: astype_column_def)
      then show ?thesis using None sn by (simp add: astype_column_def)
    next
      case (Some t)
      then obtain ys where ys: "astype t xs = Inr ys" "q = (k, ys)"
        using n by (auto simp: astype_column_def p thenE_Inr)
      then have r: "r = (k, ys)" using s sn by (simp add: astype_column_def)
      from ys idem have "astype t ys = Inr ys" by blast
      then show ?thesis using r sn Some by (simp add: astype_column_def thenE_def)
    qed
  qed
qed

section \<open>Casting twice\<close>

text \<open>
  Claim C8. \<^verbatim>\<open>cast_column_types\<close> is idempotent: applied to a frame it has
  returned, it returns that frame again. What is used of the library's
  \<^verbatim>\<open>Series.astype\<close> is that converting a column it has already converted to a dtype
  to the same dtype gives the column back.
\<close>

theorem cast_column_types_idempotent:
  assumes idem: "\<forall>t xs ys. astype t xs = Inr ys \<longrightarrow> astype t ys = Inr ys"
    and run: "cast_column_types astype df = Inr df'"
  shows "cast_column_types astype df' = Inr df'"
proof -
  let ?n = "astype_column astype type_mapping_numeric"
  let ?s = "astype_column astype type_mapping_string"
  from run obtain df1 where n: "map_err ?n df = Inr df1" and s: "map_err ?s df1 = Inr df'"
    by (auto simp: cast_column_types_passes thenE_Inr)
  have ln: "length df1 = length df" and en: "\<forall>i < length df. ?n (df ! i) = Inr (df1 ! i)"
    using n by (simp_all add: map_err_Inr_iff)
  have ls: "length df' = length df1" and es: "\<forall>i < length df1. ?s (df1 ! i) = Inr (df' ! i)"
    using s by (simp_all add: map_err_Inr_iff)
  have fixed: "?n r = Inr r \<and> ?s r = Inr r" if "r \<in> set df'" for r
  proof -
    from that obtain i where i: "i < length df'" "r = df' ! i"
      by (auto simp: in_set_conv_nth)
    have "?n (df ! i) = Inr (df1 ! i)" "?s (df1 ! i) = Inr r"
      using en es i ln ls by simp_all
    then show ?thesis by (rule astype_column_twice [OF idem])
  qed
  have "map_err ?n df' = Inr df'" "map_err ?s df' = Inr df'"
    using fixed by (auto intro!: map_err_Inr_id simp: list_all_iff)
  then show ?thesis
    by (simp add: cast_column_types_passes thenE_def)
qed

lemma map_err_idem:
  assumes "\<And>x y. f x = Inr y \<Longrightarrow> f y = Inr y" and "map_err f xs = Inr ys"
  shows "map_err f ys = Inr ys"
proof -
  have "\<forall>i < length xs. f (xs ! i) = Inr (ys ! i)" "length ys = length xs"
    using assms(2) by (simp_all add: map_err_Inr_iff)
  then have "\<forall>i < length ys. f (ys ! i) = Inr (ys ! i)"
    using assms(1) by metis
  then show ?thesis by (simp add: map_err_Inr_iff)
qed

lemma to_Int64_idem: "to_Int64 x = Inr y \<Longrightarrow> to_Int64 y = Inr y"
  by (cases x) (auto simp: to_Int64_def split: option.splits)

lemma to_string_idem: "to_string x = Inr y \<Longrightarrow> to_string y = Inr y"
  by (cases x) (auto simp: to_string_def)

lemma astype_sample_idem:
  "\<forall>t xs ys. astype_sample t xs = Inr ys \<longrightarrow> astype_sample t ys = Inr ys"
proof (intro allI impI)
  fix t xs ys assume a: "astype_sample t xs = Inr ys"
  show "astype_sample t ys = Inr ys"
  proof (cases "t = ''Int64''")
    case True
    then show ?thesis
      using a map_err_idem [of to_Int64 xs ys] to_Int64_idem by (simp add: astype_sample_def)
  next
    case False
    show ?thesis
    proof (cases "t = ''string''")
      case True
      then show ?thesis
        using a False map_err_idem [of to_string xs ys] to_string_idem
        by (simp add: astype_sample_def)
    next
      case False
      with \<open>t \<noteq> ''Int64''\<close> a show ?thesis by (simp add: astype_sample_def)
    qed
  qed
qed

theorem cast_column_types_idempotent_witness:
  "cast_column_types astype_sample ex_uncast = Inr ex_cast \<and>
   cast_column_types astype_sample ex_cast = Inr ex_cast \<and>
   ex_cast \<noteq> ex_uncast"
proof -
  have run: "cast_column_types astype_sample ex_uncast = Inr ex_cast"
    by code_simp
  have again: "cast_column_types astype_sample ex_cast = Inr ex_cast"
    using astype_sample_idem run by (rule cast_column_types_idempotent)
  have "ex_cast \<noteq> ex_uncast"
    by (simp add: ex_cast_def ex_uncast_def)
  with run again show ?thesis by blast
qed

lemma thenE_return: "thenE r (\<lambda>x. Inr x) = r"
  by (cases r) (simp_all add: thenE_def)

lemma fold_err_three:
  "fold_err f [a, b, c] s = thenE (f a s) (\<lambda>s1. thenE (f b s1) (\<lambda>s2. f c s2))"
proof -
  have e0: "fold_err f [] = (\<lambda>s. Inr s)" by (rule ext) simp
  have e1: "fold_err f [c] = (\<lambda>s. f c s)" by (rule ext) (simp add: e0 thenE_return)
  have e2: "fold_err f [b, c] = (\<lambda>s1. thenE (f b s1) (\<lambda>s2. f c s2))"
    by (rule ext) (simp add: e1)
  show ?thesis by (simp add: e2)
qed

lemma floor_step_guard:
  "floor_step c u df = (if c \<in> set (columns df) then floor_column c u df else Inr df)"
  by (simp add: floor_step_def floor_column_def)

lemma floor_column_columns:
  assumes "floor_column c u df = Inr df1"
  shows "columns df1 = columns df"
proof -
  from assms obtain xs fs where "getitem df c = Inr xs" "df1 = setitem c fs df"
    by (auto simp: floor_column_def thenE_Inr)
  then show ?thesis by (simp add: columns_setitem getitem_Inr_iff in_columns_iff)
qed

lemma guarded_steps_present:
  "fold_err (\<lambda>(c, u). floor_step c u) l df =
     fold_err (\<lambda>(c, u). floor_column c u) (filter (\<lambda>(c, u). c \<in> set (columns df)) l) df"
proof (induction l arbitrary: df)
  case Nil
  then show ?case by simp
next
  case (Cons p l)
  obtain c u where p: "p = (c, u)" by (cases p)
  show ?case
  proof (cases "c \<in> set (columns df)")
    case False
    then show ?thesis using Cons.IH [of df] by (simp add: p floor_step_guard thenE_def)
  next
    case True
    show ?thesis
    proof (cases "floor_column c u df")
      case (Inl e)
      then show ?thesis using True by (simp add: p floor_step_guard thenE_def)
    next
      case (Inr d1)
      then have "columns d1 = columns df" by (rule floor_column_columns)
      then show ?thesis using True Inr Cons.IH [of d1] by (simp add: p floor_step_guard thenE_def)
    qed
  qed
qed

lemma format_datetime_columns_present:
  "format_datetime_columns df =
     fold_err (\<lambda>(c, u). floor_column c u)
       (filter (\<lambda>(c, u). c \<in> set (columns df))
          [(''fixture_date'', NoUnit), (''fixture_periods_first'', Seconds),
           (''fixture_periods_second'', Seconds)]) df"
proof -
  have "format_datetime_columns df =
     fold_err (\<lambda>(c, u). floor_step c u)
       [(''fixture_date'', NoUnit), (''fixture_periods_first'', Seconds),
        (''fixture_periods_second'', Seconds)] df"
    unfolding format_datetime_columns_steps fold_err_three by simp
  then show ?thesis by (simp only: guarded_steps_present)
qed

lemma drop_irrelevant_cols_present:
  "drop_irrelevant_cols df = filter (\<lambda>(c, xs). c \<notin> set cols_drop) df"
proof -
  define existing where "existing = filter (\<lambda>c. c \<in> set (columns df)) cols_drop"
  have e: "drop_columns existing df = drop_columns cols_drop df"
    unfolding existing_def by (rule drop_columns_present)
  have "drop_irrelevant_cols df = (if existing \<noteq> [] then drop_columns existing df else df)"
    by (simp add: drop_irrelevant_cols_def existing_def Let_def)
  also have "\<dots> = drop_columns existing df"
    by (simp add: drop_columns_Nil)
  finally show ?thesis using e by (simp add: drop_columns_def)
qed

lemma cast_gold_categoricals_present:
  "cast_gold_categoricals astype df = map_err (astype_column astype categoricals) df"
  using df_astype_present [of df df categoricals astype]
  by (simp add: cast_gold_categoricals_def)

section \<open>Transforms skip the columns that are missing\<close>

text \<open>
  Claim C3, amended. In every Silver/Gold transform a referenced column that is absent
  is skipped without an exception, and the columns that are present are processed
  whichever others are missing: \<^verbatim>\<open>format_datetime_columns\<close> converts exactly the
  present ones of its three columns, in order; \<^verbatim>\<open>drop_irrelevant_cols\<close> returns the
  frame without the deny-listed columns; \<^verbatim>\<open>cast_column_types\<close> and
  \<^verbatim>\<open>cast_gold_categoricals\<close> convert exactly the columns whose label is a key of
  their dictionaries and keep the others; \<^verbatim>\<open>add_match_winner\<close> without a goal column
  returns the frame without the winner columns, and \<^verbatim>\<open>add_total_goals\<close> without a goal
  column and \<^verbatim>\<open>ensure_event_date_utc\<close> without \<^verbatim>\<open>event_date\<close> return the frame.
  So each transform returns the frame unchanged, raising nothing, when the frame has
  none of the columns it references.
\<close>

theorem transforms_skip_missing_columns:
  "format_datetime_columns df =
     fold_err (\<lambda>(c, u). floor_column c u)
       (filter (\<lambda>(c, u). c \<in> set (columns df))
          [(''fixture_date'', NoUnit), (''fixture_periods_first'', Seconds),
           (''fixture_periods_second'', Seconds)]) df \<and>
   drop_irrelevant_cols df = filter (\<lambda>(c, xs). c \<notin> set cols_drop) df \<and>
   (''goals_home'' \<notin> set (columns df) \<or> ''goals_away'' \<notin> set (columns df) \<longrightarrow>
      add_match_winner df =
        Inr (filter (\<lambda>(c, xs). c \<notin> set [''teams_home_winner'', ''teams_away_winner'']) df) \<and>
      add_total_goals df = Inr df) \<and>
   cast_column_types astype df =
     thenE (map_err (astype_column astype type_mapping_numeric) df)
       (map_err (astype_column astype type_mapping_string)) \<and>
   cast_gold_categoricals astype df = map_err (astype_column astype categoricals) df \<and>
   (''event_date'' \<notin> set (columns df) \<longrightarrow> ensure_event_date_utc df = Inr df) \<and>
   (set [''fixture_date'', ''fixture_periods_first'', ''fixture_periods_second'']
      \<inter> set (columns df) = {} \<longrightarrow> format_datetime_columns df = Inr df) \<and>
   (set cols_drop \<inter> set (columns df) = {} \<longrightarrow> drop_irrelevant_cols df = df) \<and>
   ((''goals_home'' \<notin> set (columns df) \<or> ''goals_away'' \<notin> set (columns df)) \<and>
    ''teams_home_winner'' \<notin> set (columns df) \<and> ''teams_away_winner'' \<notin> set (columns df) \<longrightarrow>
      add_match_winner df = Inr df) \<and>
   (set (map fst type_mapping_numeric) \<inter> set (columns df) = {} \<and>
    set (map fst type_mapping_string) \<inter> set (columns df) = {} \<longrightarrow>
      cast_column_types astype df = Inr df) \<and>
   (set (map fst categoricals) \<inter> set (columns df) = {} \<longrightarrow>
      cast_gold_categoricals astype df = Inr df)"
proof -
  have w: "add_match_winner df =
        Inr (filter (\<lambda>(c, xs). c \<notin> set [''teams_home_winner'', ''teams_away_winner'']) df)"
    if "''goals_home'' \<notin> set (columns df) \<or> ''goals_away'' \<notin> set (columns df)"
    using add_match_winner_no_goals [OF that] by (simp add: drop_columns_def)
  show ?thesis
    using format_datetime_columns_present [of df] drop_irrelevant_cols_present [of df] w
      add_total_goals_absent [of df] cast_column_types_passes [of astype df]
      cast_gold_categoricals_present [of astype df] ensure_event_date_utc_absent [of df]
      format_datetime_columns_absent [of df] drop_irrelevant_cols_absent [of df]
      add_match_winner_absent [of df] cast_column_types_absent [of df astype]
      cast_gold_categoricals_absent [of df astype]
    by blast
qed

theorem transforms_skip_missing_columns_witness:
  "format_datetime_columns ex_partial =
     Inr [(''fixture_id'', [Num 100]),
          (''fixture_periods_first'', [Ts 1714566840000000000 (Offset 0)]),
          (''league_logo'', [Str ''logo.png'']),
          (''goals_home'', [Str ''2'']),
          (''league_round'', [Str ''Final''])] \<and>
   drop_irrelevant_cols ex_partial =
     [(''fixture_id'', [Num 100]),
      (''fixture_periods_first'', [Num 1714566896]),
      (''goals_home'', [Str ''2'']),
      (''league_round'', [Str ''Final''])] \<and>
   add_match_winner ex_partial = Inr ex_partial \<and>
   add_total_goals ex_partial = Inr ex_partial \<and>
   cast_column_types astype_sample ex_partial =
     Inr [(''fixture_id'', [Num 100]),
          (''fixture_periods_first'', [Num 1714566896]),
          (''league_logo'', [Str ''logo.png'']),
          (''goals_home'', [Num 2]),
          (''league_round'', [Str ''Final''])] \<and>
   cast_gold_categoricals astype_sample ex_partial = Inr ex_partial \<and>
   ensure_event_date_utc ex_partial = Inr ex_partial \<and>
   format_datetime_columns ex_ids = Inr ex_ids \<and>
   drop_irrelevant_cols ex_ids = ex_ids \<and>
   add_match_winner ex_ids = Inr ex_ids \<and>
   cast_column_types astype_fails ex_ids = Inr ex_ids \<and>
   cast_gold_categoricals astype_fails ex_ids = Inr ex_ids"
proof -
  note p = transforms_skip_missing_columns [of ex_partial astype_sample]
  note i = transforms_skip_missing_columns [of ex_ids astype_fails]
  have cp: "columns ex_partial =
      [''fixture_id'', ''fixture_periods_first'', ''league_logo'', ''goals_home'', ''league_round'']"
    by (simp add: ex_partial_def columns_def)
  have ci: "columns ex_ids = [''fixture_id'']"
    by (simp add: ex_ids_def columns_def)
  have f: "fold_err (\<lambda>(c, u). floor_column c u) [(''fixture_periods_first'', Seconds)] ex_partial =
     Inr [(''fixture_id'', [Num 100]),
          (''fixture_periods_first'', [Ts 1714566840000000000 (Offset 0)]),
          (''league_logo'', [Str ''logo.png'']),
          (''goals_home'', [Str ''2'']),
          (''league_round'', [Str ''Final''])]"
    by code_simp
  have a1: "format_datetime_columns ex_partial =
     Inr [(''fixture_id'', [Num 100]),
          (''fixture_periods_first'', [Ts 1714566840000000000 (Offset 0)]),
          (''league_logo'', [Str ''logo.png'']),
          (''goals_home'', [Str ''2'']),
          (''league_round'', [Str ''Final''])]"
    using p f by (simp add: cp)
  have a2: "drop_irrelevant_cols ex_partial =
     [(''fixture_id'', [Num 100]),
      (''fixture_periods_first'', [Num 1714566896]),
      (''goals_home'', [Str ''2'']),
      (''league_round'', [Str ''Final''])]"
    using p by (simp add: ex_partial_def cols_drop_def)
  have a3: "add_match_winner ex_partial = Inr ex_partial"
    "add_total_goals ex_partial = Inr ex_partial"
    "ensure_event_date_utc ex_partial = Inr ex_partial"
    using p by (simp_all add: cp) (simp add: ex_partial_def)
  have c1: "thenE (map_err (astype_column astype_sample type_mapping_numeric) ex_partial)
       (map_err (astype_column astype_sample type_mapping_string)) =
     Inr [(''fixture_id'', [Num 100]),
          (''fixture_periods_first'', [Num 1714566896]),
          (''league_logo'', [Str ''logo.png'']),
          (''goals_home'', [Num 2]),
          (''league_round'', [Str ''Final''])]"
    by code_simp
  have c2: "map_err (astype_column astype_sample categoricals) ex_partial = Inr ex_partial"
    by code_simp
  have a4: "cast_column_types astype_sample ex_partial =
     Inr [(''fixture_id'', [Num 100]),
          (''fixture_periods_first'', [Num 1714566896]),
          (''league_logo'', [Str ''logo.png'']),
          (''goals_home'', [Num 2]),
          (''league_round'', [Str ''Final''])]"
    "cast_gold_categoricals astype_sample ex_partial = Inr ex_partial"
    using p c1 c2 by simp_all
  have b: "format_datetime_columns ex_ids = Inr ex_ids"
    "drop_irrelevant_cols ex_ids = ex_ids"
    "add_match_winner ex_ids = Inr ex_ids"
    "cast_column_types astype_fails ex_ids = Inr ex_ids"
    "cast_gold_categoricals astype_fails ex_ids = Inr ex_ids"
  proof -
    have h: "set [''fixture_date'', ''fixture_periods_first'', ''fixture_periods_second'']
        \<inter> set (columns ex_ids) = {}"
      "set cols_drop \<inter> set (columns ex_ids) = {}"
      "''goals_home'' \<notin> set (columns ex_ids)"
      "''teams_home_winner'' \<notin> set (columns ex_ids)"
      "''teams_away_winner'' \<notin> set (columns ex_ids)"
      "set (map fst type_mapping_numeric) \<inter> set (columns ex_ids) = {}"
      "set (map fst type_mapping_string) \<inter> set (columns ex_ids) = {}"
      "set (map fst categoricals) \<inter> set (columns ex_ids) = {}"
      by (simp_all add: ci cols_drop_def type_mapping_numeric_def type_mapping_string_def
          categoricals_def)
    show "format_datetime_columns ex_ids = Inr ex_ids" using i h(1) by blast
    show "drop_irrelevant_cols ex_ids = ex_ids" using i h(2) by blast
    show "add_match_winner ex_ids = Inr ex_ids" using i h(3,4,5) by blast
    show "cast_column_types astype_fails ex_ids = Inr ex_ids" using i h(6,7) by blast
    show "cast_gold_categoricals astype_fails ex_ids = Inr ex_ids" using i h(8) by blast
  qed
  show ?thesis using a1 a2 a3 a4 b by blast
qed




















section \<open>Merging the same data twice\<close>




end
